theory Spec2Isabelle
  imports Complex_Main
begin

section \<open>Python values, errors and string primitives\<close>

text \<open>
  The tool table plugins of QtPyVCP (\<^verbatim>\<open>qtpyvcp/plugins/tool_table.py\<close> and
  \<^verbatim>\<open>qtpyvcp/plugins/db_tool_table.py\<close>) are embedded as HOL functions.
  A Python exception is the left summand of a sum type, a dictionary is a map,
  instance and class attributes are fields of an explicit state record, and
  logging, signals and file operations are returned as event lists.

  Python floats are modelled by the rational number they denote; the rounding of a
  decimal literal to the nearest binary64 value is not part of the model, and neither are
  the infinities, NaN and the sign of zero.
\<close>

datatype py_error =
    KeyError | IndexError | AttributeError | ValueError | TypeError | IOError
  | NoResultFound | MultipleResultsFound | StatementError

datatype pyval = PInt int | PFloat rat | PStr string

text \<open>A tool record is a \<^verbatim>\<open>dict\<close> from column identifier to value, a tool table a
  \<^verbatim>\<open>dict\<close> from tool number to tool record.\<close>

type_synonym tool = "string \<rightharpoonup> pyval"
type_synonym tool_table = "int \<rightharpoonup> tool"

text \<open>\<^verbatim>\<open>str.strip()\<close> without arguments removes ASCII whitespace
  (space, tab, newline, carriage return, vertical tab, form feed) at both ends.\<close>

definition is_space :: "char \<Rightarrow> bool" where
  "is_space c = (c \<in> set [CHR '' '', CHR 0x09, CHR 0x0A, CHR 0x0D, CHR 0x0B, CHR 0x0C])"

definition lstrip :: "string \<Rightarrow> string" where
  "lstrip s = dropWhile is_space s"

definition strip :: "string \<Rightarrow> string" where
  "strip s = rev (dropWhile is_space (rev (dropWhile is_space s)))"

text \<open>\<^verbatim>\<open>str.upper()\<close> and \<^verbatim>\<open>str.lower()\<close> on ASCII letters.\<close>

definition lower_letters :: string where
  "lower_letters = ''abcdefghijklmnopqrstuvwxyz''"

definition upper_letters :: string where
  "upper_letters = ''ABCDEFGHIJKLMNOPQRSTUVWXYZ''"

definition upper_char :: "char \<Rightarrow> char" where
  "upper_char c = (case map_of (zip lower_letters upper_letters) c of Some u \<Rightarrow> u | None \<Rightarrow> c)"

definition lower_char :: "char \<Rightarrow> char" where
  "lower_char c = (case map_of (zip upper_letters lower_letters) c of Some l \<Rightarrow> l | None \<Rightarrow> c)"

definition upper :: "string \<Rightarrow> string" where
  "upper s = map upper_char s"

definition lower :: "string \<Rightarrow> string" where
  "lower s = map lower_char s"

text \<open>\<^verbatim>\<open>s.startswith(p)\<close>.\<close>

definition startswith :: "string \<Rightarrow> string \<Rightarrow> bool" where
  "startswith s p = (take (length p) s = p)"

text \<open>\<^verbatim>\<open>s.partition(';')\<close>: the text before the first occurrence of the separator, the
  separator itself (empty when absent) and the text after it.\<close>

definition partition_str :: "char \<Rightarrow> string \<Rightarrow> string \<times> string \<times> string" where
  "partition_str sep s =
     (case dropWhile (\<lambda>c. c \<noteq> sep) s of
        [] \<Rightarrow> (s, [], [])
      | _ # after \<Rightarrow> (takeWhile (\<lambda>c. c \<noteq> sep) s, [sep], after))"

text \<open>\<^verbatim>\<open>s.replace(' ', '')\<close>.\<close>

definition remove_spaces :: "string \<Rightarrow> string" where
  "remove_spaces s = filter (\<lambda>c. c \<noteq> CHR '' '') s"

section \<open>Column identifiers and the default tool\<close>

definition ALL_COLUMNS :: "string list" where
  "ALL_COLUMNS = [''T'', ''P'', ''X'', ''Y'', ''Z'', ''A'', ''B'', ''C'', ''U'', ''V'', ''W'',
                  ''D'', ''I'', ''J'', ''Q'', ''R'', ''STL'', ''COLOR'']"

definition DEFAULT_TOOL :: tool where
  "DEFAULT_TOOL = map_of
     [(''A'', PFloat 0), (''B'', PFloat 0), (''C'', PFloat 0), (''D'', PFloat 0),
      (''I'', PFloat 0), (''J'', PFloat 0), (''P'', PInt 0), (''Q'', PInt 1),
      (''T'', PInt (- 1)), (''U'', PFloat 0), (''V'', PFloat 0), (''W'', PFloat 0),
      (''X'', PFloat 0), (''Y'', PFloat 0), (''Z'', PFloat 0), (''R'', PStr ''''),
      (''STL'', PStr ''''), (''COLOR'', PStr '''')]"

text \<open>\<^verbatim>\<open>merge(a, b)\<close>: a copy of \<open>a\<close> updated with the entries of \<open>b\<close>.\<close>

definition merge :: "('k \<rightharpoonup> 'v) \<Rightarrow> ('k \<rightharpoonup> 'v) \<Rightarrow> ('k \<rightharpoonup> 'v)" where
  "merge a b = a ++ b"

definition NO_TOOL :: tool where
  "NO_TOOL = merge DEFAULT_TOOL [''T'' \<mapsto> PInt 0, ''R'' \<mapsto> PStr ''No Tool Loaded'']"

section \<open>validateColumns\<close>

text \<open>The argument of \<^verbatim>\<open>validateColumns\<close> is an arbitrary Python object.\<close>

datatype pyobj = OStr string | OList "pyobj list" | OTuple "pyobj list" | OInt int | ONone

text \<open>\<^verbatim>\<open>col.strip().upper()\<close> for one element of the iteration; only a string has
  the method \<^verbatim>\<open>strip\<close>.\<close>

fun strip_upper :: "pyobj \<Rightarrow> py_error + string" where
  "strip_upper (OStr s) = Inr (upper (strip s))"
| "strip_upper _ = Inl AttributeError"

text \<open>The inner list comprehension: every element is converted before any is filtered,
  and the first exception ends the evaluation.\<close>

fun strip_upper_all :: "pyobj list \<Rightarrow> py_error + string list" where
  "strip_upper_all [] = Inr []"
| "strip_upper_all (x # xs) =
     (case strip_upper x of
        Inl e \<Rightarrow> Inl e
      | Inr s \<Rightarrow> (case strip_upper_all xs of Inl e \<Rightarrow> Inl e | Inr ss \<Rightarrow> Inr (s # ss)))"

text \<open>Iterating a string yields its characters as strings of length one.\<close>

fun iter_columns :: "pyobj \<Rightarrow> pyobj list option" where
  "iter_columns (OStr s) = Some (map (\<lambda>c. OStr [c]) s)"
| "iter_columns (OList xs) = Some xs"
| "iter_columns (OTuple xs) = Some xs"
| "iter_columns _ = None"

text \<open>\<^verbatim>\<open>ToolTable.validateColumns\<close> (tool_table.py): membership in the tuple
  \<^verbatim>\<open>ALL_COLUMNS\<close>.\<close>

definition validateColumns :: "pyobj \<Rightarrow> py_error + string list option" where
  "validateColumns columns =
     (case iter_columns columns of
        None \<Rightarrow> Inr None
      | Some elems \<Rightarrow>
          (case strip_upper_all elems of
             Inl e \<Rightarrow> Inl e
           | Inr cols \<Rightarrow> Inr (Some (filter (\<lambda>col. col \<in> set ALL_COLUMNS \<and> col \<noteq> '''') cols))))"

text \<open>\<^verbatim>\<open>x in s\<close> for two strings is the substring test.\<close>

definition is_substring :: "string \<Rightarrow> string \<Rightarrow> bool" where
  "is_substring x s = (\<exists>i \<in> set [0 ..< Suc (length s)]. take (length x) (drop i s) = x)"

text \<open>\<^verbatim>\<open>DBToolTable.validateColumns\<close> (db_tool_table.py): \<^verbatim>\<open>col in 'TPXYZABCUVWDIJQR'\<close>.\<close>

definition db_validateColumns :: "pyobj \<Rightarrow> py_error + string list option" where
  "db_validateColumns columns =
     (case iter_columns columns of
        None \<Rightarrow> Inr None
      | Some elems \<Rightarrow>
          (case strip_upper_all elems of
             Inl e \<Rightarrow> Inl e
           | Inr cols \<Rightarrow>
               Inr (Some (filter (\<lambda>col. is_substring col ''TPXYZABCUVWDIJQR'' \<and> col \<noteq> '''') cols))))"

section \<open>current_tool\<close>

text \<open>The data channel returns the whole record, or what \<^verbatim>\<open>dict.get\<close> finds for the
  upper-cased first character of the item (\<^verbatim>\<open>None\<close> when the record has no such key).\<close>

datatype channel_value = WholeTool tool | ToolItem "pyval option"

definition current_tool :: "tool_table \<Rightarrow> int \<Rightarrow> string option \<Rightarrow> py_error + channel_value" where
  "current_tool TOOL_TABLE tool_in_spindle item =
     (case item of
        None \<Rightarrow>
          (case TOOL_TABLE tool_in_spindle of
             None \<Rightarrow> Inl KeyError
           | Some t \<Rightarrow> Inr (WholeTool t))
      | Some key \<Rightarrow>
          (case TOOL_TABLE tool_in_spindle of
             None \<Rightarrow> Inl KeyError
           | Some t \<Rightarrow>
               (case key of
                  [] \<Rightarrow> Inl IndexError
                | c # _ \<Rightarrow> Inr (ToolItem (t (upper [c]))))))"

section \<open>Numbers as text\<close>

definition digit_chars :: string where
  "digit_chars = ''0123456789''"

definition is_digit :: "char \<Rightarrow> bool" where
  "is_digit c = (c \<in> set digit_chars)"

definition digit_val :: "char \<Rightarrow> nat" where
  "digit_val c = of_char c - 48"

definition digit_char :: "nat \<Rightarrow> char" where
  "digit_char d = digit_chars ! d"

definition nat_of_digits :: "string \<Rightarrow> nat" where
  "nat_of_digits ds = foldl (\<lambda>a c. 10 * a + digit_val c) 0 ds"

text \<open>The optional sign in front of a numeric literal.\<close>

definition is_sign :: "char \<Rightarrow> bool" where
  "is_sign c = (c = CHR ''+'' \<or> c = CHR ''-'')"

definition unsigned_part :: "string \<Rightarrow> string" where
  "unsigned_part s = (case s of [] \<Rightarrow> [] | c # cs \<Rightarrow> if is_sign c then cs else s)"

definition is_negative :: "string \<Rightarrow> bool" where
  "is_negative s = (case s of [] \<Rightarrow> False | c # _ \<Rightarrow> c = CHR ''-'')"

text \<open>\<^verbatim>\<open>int(value)\<close> on a token value. The tokenizer only delivers the characters
  \<^verbatim>\<open>0-9 . + -\<close>, for which Python accepts exactly an optional sign followed by one or
  more digits; \<open>None\<close> stands for the \<^verbatim>\<open>ValueError\<close>.\<close>

definition py_int :: "string \<Rightarrow> int option" where
  "py_int s =
     (let body = unsigned_part s
      in if body \<noteq> [] \<and> list_all is_digit body
         then Some ((if is_negative s then - 1 else 1) * int (nat_of_digits body))
         else None)"

text \<open>\<^verbatim>\<open>float(value)\<close> on a token value: an optional sign, digits with at most one
  decimal point, and at least one digit.\<close>

definition py_float :: "string \<Rightarrow> rat option" where
  "py_float s =
     (let body = unsigned_part s;
          ip = takeWhile is_digit body;
          rest = dropWhile is_digit body;
          sgn = (if is_negative s then - 1 else 1)
      in case rest of
           [] \<Rightarrow> if ip \<noteq> [] then Some (sgn * of_nat (nat_of_digits ip)) else None
         | c # fp \<Rightarrow>
             if c = CHR ''.'' \<and> list_all is_digit fp \<and> (ip \<noteq> [] \<or> fp \<noteq> [])
             then Some (sgn * (of_nat (nat_of_digits ip)
                               + of_nat (nat_of_digits fp) / 10 ^ length fp))
             else None)"

text \<open>\<^verbatim>\<open>str(n)\<close> for a non-negative and for an arbitrary integer.\<close>

function show_nat :: "nat \<Rightarrow> string" where
  "show_nat n = (if n < 10 then [digit_char n] else show_nat (n div 10) @ [digit_char (n mod 10)])"
  by pat_completeness auto
termination
  by (relation "measure id") auto

declare show_nat.simps [simp del]

definition show_int :: "int \<Rightarrow> string" where
  "show_int i = (if i < 0 then CHR ''-'' # show_nat (nat (- i)) else show_nat (nat i))"

text \<open>Left alignment in a field of width \<open>w\<close> (\<^verbatim>\<open>{:<w}\<close>): padding with spaces, never
  truncating.\<close>

definition ljust :: "nat \<Rightarrow> string \<Rightarrow> string" where
  "ljust w s = s @ replicate (w - length s) CHR '' ''"

text \<open>Rounding to the nearest integer, ties to even, as the \<^verbatim>\<open>f\<close> format does on the
  exact value it prints.\<close>

definition round_half_even :: "rat \<Rightarrow> int" where
  "round_half_even q =
     (let f = \<lfloor>q\<rfloor>; d = q - of_int f
      in if d < 1 / 2 then f else if 1 / 2 < d then f + 1 else if even f then f else f + 1)"

definition zfill :: "nat \<Rightarrow> string \<Rightarrow> string" where
  "zfill w s = replicate (w - length s) CHR ''0'' @ s"

text \<open>\<^verbatim>\<open>{:+.6f}\<close>: explicit sign, integer part, six decimal places.\<close>

definition FLOAT_DECIMAL_PLACES :: nat where
  "FLOAT_DECIMAL_PLACES = 6"

definition format_f :: "rat \<Rightarrow> string" where
  "format_f x =
     (let m = nat (round_half_even (\<bar>x\<bar> * 10 ^ FLOAT_DECIMAL_PLACES))
      in (if x < 0 then CHR ''-'' else CHR ''+'')
         # show_nat (m div 10 ^ FLOAT_DECIMAL_PLACES)
         @ ''.'' @ zfill FLOAT_DECIMAL_PLACES (show_nat (m mod 10 ^ FLOAT_DECIMAL_PLACES)))"

section \<open>Lines of a file\<close>

text \<open>\<^verbatim>\<open>fh.readlines()\<close>: the lines of the text, each with its terminating newline.\<close>

fun readlines :: "string \<Rightarrow> string list" where
  "readlines [] = []"
| "readlines (c # cs) =
     (if c = CHR 0x0A then [c] # readlines cs
      else (case readlines cs of [] \<Rightarrow> [[c]] | l # ls \<Rightarrow> (c # l) # ls))"

text \<open>\<^verbatim>\<open>str.splitlines()\<close>: the line boundaries are \<^verbatim>\<open>\n\<close>, \<^verbatim>\<open>\r\<close> and
  \<^verbatim>\<open>\r\n\<close>; the terminators are dropped.\<close>

definition is_newline :: "char \<Rightarrow> bool" where
  "is_newline c = (c = CHR 0x0A \<or> c = CHR 0x0D)"

fun splitlines_from :: "string \<Rightarrow> string \<Rightarrow> string list" where
  "splitlines_from cur [] = (if cur = [] then [] else [rev cur])"
| "splitlines_from cur [c] = (if is_newline c then [rev cur] else [rev (c # cur)])"
| "splitlines_from cur (c # d # r) =
     (if c = CHR 0x0D \<and> d = CHR 0x0A then rev cur # splitlines_from [] r
      else if is_newline c then rev cur # splitlines_from [] (d # r)
      else splitlines_from (c # cur) (d # r))"

definition splitlines :: "string \<Rightarrow> string list" where
  "splitlines s = splitlines_from [] s"

text \<open>\<^verbatim>\<open>sep.join(lines)\<close>.\<close>

fun join :: "string \<Rightarrow> string list \<Rightarrow> string" where
  "join sep [] = []"
| "join sep [l] = l"
| "join sep (l # ls) = l @ sep @ join sep ls"

section \<open>The regular expressions of the decoder\<close>

text \<open>\<^verbatim>\<open>re.findall(r"([A-Z]+[0-9.+-]+)", data)\<close>. Both repetitions are greedy and the
  two character classes are disjoint, so a match at a position takes the longest run of
  letters and then the longest run of value characters; when either run is empty the
  search moves on by one character. Matches do not overlap.\<close>

definition is_AZ :: "char \<Rightarrow> bool" where
  "is_AZ c = (c \<in> set upper_letters)"

definition is_value_char :: "char \<Rightarrow> bool" where
  "is_value_char c = (c \<in> set ''0123456789.+-'')"

function findall_items :: "string \<Rightarrow> string list" where
  "findall_items [] = []"
| "findall_items (c # cs) =
     (let letters = takeWhile is_AZ (c # cs);
          rest = dropWhile is_AZ (c # cs);
          val = takeWhile is_value_char rest
      in if letters \<noteq> [] \<and> val \<noteq> []
         then (letters @ val) # findall_items (dropWhile is_value_char rest)
         else findall_items cs)"
  by pat_completeness auto
termination
proof (relation "measure length", goal_cases)
  case 1
  show ?case by simp
next
  case (2 c cs letters rest val)
  have "length (dropWhile is_value_char (dropWhile is_AZ (c # cs)))
          \<le> length (dropWhile is_AZ (c # cs))"
    by (rule length_dropWhile_le)
  moreover have "is_AZ c"
    using 2 by (auto split: if_splits)
  moreover have "length (dropWhile is_AZ cs) \<le> length cs"
    by (rule length_dropWhile_le)
  ultimately show ?case using 2 by simp
next
  case (3 c cs letters rest val)
  show ?case by simp
qed

text \<open>\<^verbatim>\<open>re.findall(r"\[([...]+)]", s)\<close> for a character class that contains neither
  bracket: an opening bracket, the longest non-empty run of class characters, a closing
  bracket; the result is the list of the runs.\<close>

function findall_bracketed :: "(char \<Rightarrow> bool) \<Rightarrow> string \<Rightarrow> string list" where
  "findall_bracketed cls [] = []"
| "findall_bracketed cls (c # cs) =
     (if c = CHR ''['' \<and> takeWhile cls cs \<noteq> []
         \<and> (case dropWhile cls cs of [] \<Rightarrow> False | d # _ \<Rightarrow> d = CHR '']'')
      then takeWhile cls cs # findall_bracketed cls (tl (dropWhile cls cs))
      else findall_bracketed cls cs)"
  by pat_completeness auto
termination
proof (relation "measure (\<lambda>(cls, s). length s)", goal_cases)
  case 1
  show ?case by simp
next
  case (2 cls c cs)
  have "length (dropWhile cls cs) \<le> length cs"
    by (rule length_dropWhile_le)
  then show ?case by simp
next
  case (3 cls c cs)
  show ?case by simp
qed

text \<open>The class \<^verbatim>\<open>[.*?]\<close> of the tool model pattern holds the three characters
  dot, star and question mark; the class \<^verbatim>\<open>[#A-F0-9_]\<close> of the path colour pattern
  holds the hash sign, the hexadecimal digits in upper case and the underscore.\<close>

definition is_model_char :: "char \<Rightarrow> bool" where
  "is_model_char c = (c \<in> set ''.*?'')"

definition is_color_char :: "char \<Rightarrow> bool" where
  "is_color_char c = (c \<in> set ''#ABCDEF0123456789_'')"

section \<open>Plugin state and observable effects\<close>

datatype severity = DEBUG | INFO | ERROR | CRITICAL

datatype io_op = OpOpen | OpWrite string | OpFlush | OpFsync | OpClose

text \<open>What a call does besides returning: log records, lines printed, values given to the
  \<^verbatim>\<open>current_tool\<close> channel, emissions of the signal \<^verbatim>\<open>tool_table_changed\<close>, completed
  file operations, the command \<^verbatim>\<open>CMD.load_tool_table()\<close>, and the commits and the
  closing of the database session.\<close>

datatype event =
    LogEvent severity string
  | PrintEvent "string list"
  | CurrentToolSet tool
  | CurrentToolSetTable tool_table
  | ToolTableChanged tool_table
  | Performed io_op
  | LoadToolTableCmd
  | SessionCommit
  | SessionClose

text \<open>The attributes of \<^verbatim>\<open>ToolTable\<close> that the modelled methods read or write;
  \<^verbatim>\<open>TOOL_TABLE\<close> is the class attribute.\<close>

record tool_table_plugin =
  TOOL_TABLE :: tool_table
  orig_header_lines :: "string list"
  file_header_template :: string
  columns :: "string list"

section \<open>loadToolTable (tool_table.py)\<close>

text \<open>The loop over the items of one row. A \<^verbatim>\<open>break\<close> leaves the loop with the tool
  as it is. The tokenizer never yields an empty item, so \<^verbatim>\<open>item[0]\<close> exists.\<close>

fun parse_items :: "string list \<Rightarrow> tool \<Rightarrow> tool \<times> event list" where
  "parse_items [] tool = (tool, [])"
| "parse_items ([] # items) tool = parse_items items tool"
| "parse_items ((descriptor # val) # items) tool =
     (if [descriptor] \<in> set ALL_COLUMNS then
        if [descriptor] \<in> set [''T'', ''P'', ''Q''] then
          (case py_int val of
             Some n \<Rightarrow> parse_items items (tool([descriptor] \<mapsto> PInt n))
           | None \<Rightarrow> (tool, [LogEvent ERROR (''Error converting value to int: '' @ val)]))
        else
          (case py_float val of
             Some x \<Rightarrow> parse_items items (tool([descriptor] \<mapsto> PFloat x))
           | None \<Rightarrow> (tool, [LogEvent ERROR (''Error converting value to float: '' @ val)]))
      else parse_items items tool)"

text \<open>The body of the loop over the lines, up to the assignment of the remark: the tool
  of the row, and what the row prints and logs.\<close>

definition decode_line :: "string \<Rightarrow> tool \<times> event list" where
  "decode_line line =
     (case partition_str CHR '';'' line of
        (data, sep, comment) \<Rightarrow>
          (let tool_model = findall_bracketed is_model_char (lower comment);
               path_color = findall_bracketed is_color_char (upper comment);
               items = findall_items (remove_spaces data)
           in case parse_items items DEFAULT_TOOL of
                (tool, logged) \<Rightarrow>
                  (tool(''R'' \<mapsto> PStr (strip comment)),
                   [PrintEvent tool_model, PrintEvent path_color] @ logged)))"

text \<open>The end of the loop body: a row with tool number \<open>-1\<close> is skipped, any other is
  stored under its number. \<^verbatim>\<open>tool['T']\<close> is always an integer, the default or the
  result of \<^verbatim>\<open>int\<close>, so the last case is never taken.\<close>

definition add_row :: "tool_table \<Rightarrow> string \<Rightarrow> tool_table" where
  "add_row table line =
     (case fst (decode_line line) ''T'' of
        Some (PInt tnum) \<Rightarrow> if tnum = - 1 then table else table(tnum \<mapsto> fst (decode_line line))
      | _ \<Rightarrow> table)"

definition load_rows :: "string list \<Rightarrow> tool_table" where
  "load_rows lines = foldl add_row [0 \<mapsto> NO_TOOL] lines"

definition load_events :: "string list \<Rightarrow> event list" where
  "load_events lines = concat (map (\<lambda>line. snd (decode_line line)) lines)"

text \<open>The search for the opening semicolon: \<open>find_marker 0 (rev lines)\<close> is the index
  \<^verbatim>\<open>rlnum\<close> at which the loop over \<^verbatim>\<open>enumerate(reversed(lines))\<close> breaks.\<close>

fun find_marker :: "nat \<Rightarrow> string list \<Rightarrow> nat option" where
  "find_marker rlnum [] = None"
| "find_marker rlnum (line # rest) =
     (if startswith line '';'' then Some rlnum else find_marker (Suc rlnum) rest)"

definition header_line_kept :: "string \<Rightarrow> bool" where
  "header_line_kept l = (\<not> strip l = ''---'' \<and> \<not> startswith l '';Tool'')"

text \<open>The header lines to remember (\<open>None\<close> when no line starts with a semicolon and the
  attribute is left alone) and the lines that remain for the table.\<close>

definition split_header :: "string list \<Rightarrow> string list option \<times> string list" where
  "split_header lines =
     (case find_marker 0 (rev lines) of
        None \<Rightarrow> (None, lines)
      | Some rlnum \<Rightarrow>
          (let lnum = length lines - rlnum;
               raw_header = take lnum lines
           in (Some (takeWhile header_line_kept raw_header), drop lnum lines)))"

definition makeLorumIpsumToolTable :: tool_table where
  "makeLorumIpsumToolTable =
     (\<lambda>i. if 0 \<le> i \<and> i < 10
          then Some (merge DEFAULT_TOOL
                       [''T'' \<mapsto> PInt i, ''P'' \<mapsto> PInt i,
                        ''R'' \<mapsto> PStr (''Lorum Ipsum '' @ show_int i)])
          else None)"

text \<open>\<^verbatim>\<open>loadToolTable\<close>. \<open>file\<close> is the content of the tool table file, \<open>None\<close> when
  the file does not exist; \<open>tool_in_spindle\<close> is the value of the status channel. The
  result is the returned table or the exception raised, the state after the call, and
  the effects in order. The path of the file is left out of the log message.\<close>

definition loadToolTable ::
  "bool \<Rightarrow> string option \<Rightarrow> int \<Rightarrow> tool_table_plugin
     \<Rightarrow> (py_error + tool_table) \<times> tool_table_plugin \<times> event list" where
  "loadToolTable IN_DESIGNER file tool_in_spindle self =
     (case file of
        None \<Rightarrow>
          if IN_DESIGNER
          then (Inr makeLorumIpsumToolTable, self, [CurrentToolSetTable makeLorumIpsumToolTable])
          else (Inr Map.empty, self, [LogEvent CRITICAL ''Tool table file does not exist: ''])
      | Some text \<Rightarrow>
          (let lines = map strip (readlines text);
               self1 = (case fst (split_header lines) of
                          None \<Rightarrow> self
                        | Some hdr \<Rightarrow> self\<lparr>orig_header_lines := hdr\<rparr>);
               rows = snd (split_header lines);
               table = load_rows rows;
               self2 = self1\<lparr>TOOL_TABLE := table\<rparr>
           in case table tool_in_spindle of
                None \<Rightarrow> (Inl KeyError, self2, load_events rows)
              | Some t \<Rightarrow>
                  (Inr table, self2,
                   load_events rows @ [CurrentToolSet t, ToolTableChanged table])))"

section \<open>saveToolTable (tool_table.py)\<close>

definition COLUMN_LABELS :: "string \<rightharpoonup> string" where
  "COLUMN_LABELS = map_of
     [(''A'', ''A Offset''), (''B'', ''B Offset''), (''C'', ''C Offset''), (''D'', ''Diameter''),
      (''I'', ''Fnt Ang''), (''J'', ''Bak Ang''), (''P'', ''Pocket''), (''Q'', ''Orient''),
      (''R'', ''Remark''), (''T'', ''Tool''), (''U'', ''U Offset''), (''V'', ''V Offset''),
      (''W'', ''W Offset''), (''X'', ''X Offset''), (''Y'', ''Y Offset''), (''Z'', ''Z Offset''),
      (''STL'', ''Tool STL Model''), (''COLOR'', ''Tool Path Color'')]"

definition INT_COLUMN_WIDTH :: nat where
  "INT_COLUMN_WIDTH = 6"

definition FLOAT_COLUMN_WIDTH :: nat where
  "FLOAT_COLUMN_WIDTH = 12"

text \<open>\<^verbatim>\<open>validateColumns(columns) or self.columns\<close>: \<^verbatim>\<open>None\<close> and the empty list are
  both false.\<close>

definition columns_or :: "string list option \<Rightarrow> string list \<Rightarrow> string list" where
  "columns_or validated self_columns =
     (case validated of None \<Rightarrow> self_columns | Some cols \<Rightarrow> if cols = [] then self_columns else cols)"

text \<open>The header lines made from the template. \<open>rendered\<close> is the result of
  \<^verbatim>\<open>file_header_template.format(version=..., datetime=...)\<close>, \<open>None\<close> when the call
  raises; the exception is swallowed and no line is produced.\<close>

definition template_header_lines :: "string \<Rightarrow> string option \<Rightarrow> string list" where
  "template_header_lines template rendered =
     (if template \<noteq> []
      then (case rendered of None \<Rightarrow> [] | Some r \<Rightarrow> splitlines (lstrip r) @ [[]])
      else [])"

text \<open>The restored file header: the value of \<^verbatim>\<open>header_lines\<close> and the attribute
  \<^verbatim>\<open>orig_header_lines\<close>, which \<^verbatim>\<open>extend\<close> changes in place.\<close>

definition restore_header :: "string list \<Rightarrow> string list \<Rightarrow> string list \<times> string list" where
  "restore_header orig header_lines =
     (if orig \<noteq> [] then
        (if ''---'' \<in> set header_lines
         then (orig @ dropWhile (\<lambda>l. l \<noteq> ''---'') header_lines,
               orig @ dropWhile (\<lambda>l. l \<noteq> ''---'') header_lines)
         else (orig, orig))
      else (header_lines, orig))"

text \<open>The labels of the table header; \<open>self_columns\<close> is \<^verbatim>\<open>self.columns\<close>, whose first
  element \<^verbatim>\<open>self.columns[0]\<close> is read for every column but the remark.\<close>

fun title_items :: "string list \<Rightarrow> string list \<Rightarrow> py_error + string list" where
  "title_items self_columns [] = Inr []"
| "title_items self_columns (col # cols) =
     (if col = ''R'' then title_items self_columns cols
      else (case self_columns of
              [] \<Rightarrow> Inl IndexError
            | first # _ \<Rightarrow>
                (case COLUMN_LABELS col of
                   None \<Rightarrow> Inl KeyError
                 | Some label \<Rightarrow>
                     (case title_items self_columns cols of
                        Inl e \<Rightarrow> Inl e
                      | Inr items \<Rightarrow>
                          Inr (ljust ((if is_substring col ''TPQ'' then INT_COLUMN_WIDTH
                                       else FLOAT_COLUMN_WIDTH)
                                      - (if col = first then 1 else 0)) label # items)))))"

definition title_line :: "string list \<Rightarrow> string list \<Rightarrow> py_error + string" where
  "title_line self_columns cols =
     (case title_items self_columns cols of
        Inl e \<Rightarrow> Inl e
      | Inr items \<Rightarrow> Inr ('';'' @ join '' '' (items @ [''Remark''])))"

text \<open>\<^verbatim>\<open>'{val:<6}'.format(val=v)\<close>: an integer in decimal, a string as it is. A float
  without a presentation type is printed like \<^verbatim>\<open>str\<close> prints it, which depends on its
  binary representation; that text is the parameter \<open>float_str\<close>.\<close>

definition format_int_column :: "(rat \<Rightarrow> string) \<Rightarrow> pyval \<Rightarrow> string" where
  "format_int_column float_str v =
     (case v of
        PInt n \<Rightarrow> ljust INT_COLUMN_WIDTH (show_int n)
      | PFloat x \<Rightarrow> ljust INT_COLUMN_WIDTH (float_str x)
      | PStr t \<Rightarrow> ljust INT_COLUMN_WIDTH t)"

text \<open>\<^verbatim>\<open>'{val:<+12.6f}'.format(val=v)\<close>: a number in fixed point, a string raises
  \<^verbatim>\<open>ValueError\<close>.\<close>

definition format_float_column :: "pyval \<Rightarrow> py_error + string" where
  "format_float_column v =
     (case v of
        PInt n \<Rightarrow> Inr (ljust FLOAT_COLUMN_WIDTH (format_f (of_int n)))
      | PFloat x \<Rightarrow> Inr (ljust FLOAT_COLUMN_WIDTH (format_f x))
      | PStr t \<Rightarrow> Inl ValueError)"

fun row_items :: "(rat \<Rightarrow> string) \<Rightarrow> tool \<Rightarrow> string list \<Rightarrow> py_error + string list" where
  "row_items float_str tool_data [] = Inr []"
| "row_items float_str tool_data (col # cols) =
     (if col = ''R'' then row_items float_str tool_data cols
      else (case tool_data col of
              None \<Rightarrow> Inl KeyError
            | Some v \<Rightarrow>
                (case (if is_substring col ''TPQ'' then Inr (format_int_column float_str v)
                       else format_float_column v) of
                   Inl e \<Rightarrow> Inl e
                 | Inr txt \<Rightarrow>
                     (case row_items float_str tool_data cols of
                        Inl e \<Rightarrow> Inl e
                      | Inr items \<Rightarrow> Inr ((col @ txt) # items)))))"

text \<open>\<^verbatim>\<open>tool_data.get('R', '')\<close> and the remark item; adding a number to the string
  \<^verbatim>\<open>'; '\<close> raises \<^verbatim>\<open>TypeError\<close>.\<close>

definition remark_items :: "tool \<Rightarrow> py_error + string list" where
  "remark_items tool_data =
     (case tool_data ''R'' of
        None \<Rightarrow> Inr []
      | Some (PStr comment) \<Rightarrow> if comment \<noteq> [] then Inr [''; '' @ comment] else Inr []
      | Some _ \<Rightarrow> Inl TypeError)"

definition tool_line :: "(rat \<Rightarrow> string) \<Rightarrow> string list \<Rightarrow> tool \<Rightarrow> py_error + string" where
  "tool_line float_str cols tool_data =
     (case row_items float_str tool_data cols of
        Inl e \<Rightarrow> Inl e
      | Inr items \<Rightarrow>
          (case remark_items tool_data of
             Inl e \<Rightarrow> Inl e
           | Inr rem \<Rightarrow> Inr (concat (items @ rem))))"

text \<open>The loop over \<^verbatim>\<open>sorted(tool_table.iterkeys())[1:]\<close>.\<close>

fun tool_lines ::
  "(rat \<Rightarrow> string) \<Rightarrow> string list \<Rightarrow> tool_table \<Rightarrow> int list \<Rightarrow> py_error + string list" where
  "tool_lines float_str cols tool_table [] = Inr []"
| "tool_lines float_str cols tool_table (tool_num # nums) =
     (case tool_table tool_num of
        None \<Rightarrow> Inl KeyError
      | Some tool_data \<Rightarrow>
          (case tool_line float_str cols tool_data of
             Inl e \<Rightarrow> Inl e
           | Inr l \<Rightarrow>
               (case tool_lines float_str cols tool_table nums of
                  Inl e \<Rightarrow> Inl e
                | Inr ls \<Rightarrow> Inr (l # ls))))"

definition sorted_keys :: "tool_table \<Rightarrow> int list" where
  "sorted_keys tool_table = sorted_list_of_set (dom tool_table)"

text \<open>All lines of the file: header, table header, one line for each tool but the first.\<close>

definition file_lines ::
  "(rat \<Rightarrow> string) \<Rightarrow> string list \<Rightarrow> string list \<Rightarrow> string list \<Rightarrow> tool_table
     \<Rightarrow> py_error + string list" where
  "file_lines float_str header_lines self_columns cols tool_table =
     (case title_line self_columns cols of
        Inl e \<Rightarrow> Inl e
      | Inr title \<Rightarrow>
          (case tool_lines float_str cols tool_table (tl (sorted_keys tool_table)) of
             Inl e \<Rightarrow> Inl e
           | Inr rows \<Rightarrow> Inr (header_lines @ [title] @ rows)))"

text \<open>The operations inside the \<^verbatim>\<open>with\<close> block; \<open>fails\<close> tells which operation raises.
  The first failure ends the block.\<close>

fun perform :: "(io_op \<Rightarrow> bool) \<Rightarrow> io_op list \<Rightarrow> (py_error + unit) \<times> event list" where
  "perform fails [] = (Inr (), [])"
| "perform fails (opn # ops) =
     (if fails opn then (Inl IOError, [])
      else (case perform fails ops of (r, evs) \<Rightarrow> (r, Performed opn # evs)))"

text \<open>\<^verbatim>\<open>with open(tool_file, 'w') as fh: ...\<close>: leaving the block closes the file, also
  when the block raises.\<close>

definition write_file :: "(io_op \<Rightarrow> bool) \<Rightarrow> string list \<Rightarrow> (py_error + unit) \<times> event list" where
  "write_file fails lines =
     (if fails OpOpen then (Inl IOError, [])
      else (case perform fails
                   [OpWrite (join [CHR 0x0A] lines), OpWrite [CHR 0x0A], OpFlush, OpFsync] of
              (Inl e, evs) \<Rightarrow>
                (Inl e, Performed OpOpen # evs @ (if fails OpClose then [] else [Performed OpClose]))
            | (Inr u, evs) \<Rightarrow>
                (if fails OpClose then (Inl IOError, Performed OpOpen # evs)
                 else (Inr (), Performed OpOpen # evs @ [Performed OpClose]))))"

text \<open>\<^verbatim>\<open>saveToolTable\<close>. The result is the exception raised, if any, the state after the
  call and the effects in order.\<close>

definition saveToolTable ::
  "(rat \<Rightarrow> string) \<Rightarrow> (io_op \<Rightarrow> bool) \<Rightarrow> string option \<Rightarrow> tool_table \<Rightarrow> pyobj
     \<Rightarrow> tool_table_plugin \<Rightarrow> (py_error + unit) \<times> tool_table_plugin \<times> event list" where
  "saveToolTable float_str fails rendered tool_table columns_arg self =
     (case validateColumns columns_arg of
        Inl e \<Rightarrow> (Inl e, self, [])
      | Inr validated \<Rightarrow>
          (let cols = columns_or validated (columns self);
               hdr = restore_header (orig_header_lines self)
                       (template_header_lines (file_header_template self) rendered);
               self1 = self\<lparr>orig_header_lines := snd hdr\<rparr>
           in case file_lines float_str (fst hdr) (columns self) cols tool_table of
                Inl e \<Rightarrow> (Inl e, self1, [PrintEvent cols])
              | Inr lines \<Rightarrow>
                  (case write_file fails lines of
                     (Inl e, evs) \<Rightarrow> (Inl e, self1, PrintEvent cols # evs)
                   | (Inr u, evs) \<Rightarrow> (Inr (), self1, PrintEvent cols # evs @ [LoadToolTableCmd]))))"

text \<open>The content of the file after a sequence of effects: the file is opened for
  writing, so it holds what was written, in order.\<close>

fun written_text :: "event list \<Rightarrow> string" where
  "written_text [] = []"
| "written_text (Performed (OpWrite s) # evs) = s @ written_text evs"
| "written_text (ev # evs) = written_text evs"

section \<open>The database plugin (db_tool_table.py)\<close>

text \<open>Modelled from the spec: the class \<^verbatim>\<open>Tool\<close> of \<^verbatim>\<open>qtpyvcp.lib.db_tool.tool_table\<close>
  and the session of \<^verbatim>\<open>qtpyvcp.lib.db_tool.base\<close> are not among the sources. A row of
  the tool table of the store has one column for each field of a tool record, named as
  the plugin names them, an "in use" flag and the identifier of the parent table. The
  tool number is an integer column: a row with another value is refused by the store.
  The store is the list of its rows; \<^verbatim>\<open>query(Tool).all()\<close> is that list.\<close>

record db_tool_row =
  remark :: pyval
  tool_no :: int
  in_use :: bool
  pocket :: pyval
  x_offset :: pyval
  y_offset :: pyval
  z_offset :: pyval
  a_offset :: pyval
  b_offset :: pyval
  c_offset :: pyval
  i_offset :: pyval
  j_offset :: pyval
  q_offset :: pyval
  u_offset :: pyval
  v_offset :: pyval
  w_offset :: pyval
  diameter :: pyval
  tool_table_id :: int

text \<open>The record that \<^verbatim>\<open>DBToolTable.loadToolTable\<close> stores for a row. The entry for
  \<^verbatim>\<open>'C'\<close> reads \<^verbatim>\<open>tool.b_offset\<close>.\<close>

definition loaded_tool :: "db_tool_row \<Rightarrow> tool" where
  "loaded_tool tool = map_of
     [(''A'', a_offset tool), (''B'', b_offset tool), (''C'', b_offset tool),
      (''D'', diameter tool), (''I'', PFloat 0), (''J'', PFloat 0), (''P'', pocket tool),
      (''Q'', PInt 1), (''R'', remark tool), (''T'', PInt (tool_no tool)),
      (''U'', u_offset tool), (''V'', v_offset tool), (''W'', w_offset tool),
      (''X'', x_offset tool), (''Y'', y_offset tool), (''Z'', z_offset tool)]"

text \<open>\<^verbatim>\<open>DBToolTable.loadToolTable\<close>: every row is written into \<^verbatim>\<open>self.table\<close>, the
  dictionary the plugin already holds; then the signal is emitted with a copy.\<close>

definition store_tool :: "tool_table \<Rightarrow> db_tool_row \<Rightarrow> tool_table" where
  "store_tool table tool = table(tool_no tool \<mapsto> loaded_tool tool)"

definition db_loadToolTable :: "db_tool_row list \<Rightarrow> tool_table \<Rightarrow> tool_table \<times> event list" where
  "db_loadToolTable store self_table =
     (let table = foldl store_tool self_table store
      in (table, [PrintEvent [''Loads ToolTable''], ToolTableChanged table]))"

text \<open>\<^verbatim>\<open>DBToolTable.current_tool\<close> is \<^verbatim>\<open>ToolTable.current_tool\<close> on \<^verbatim>\<open>self.table\<close>.\<close>

definition db_current_tool :: "tool_table \<Rightarrow> int \<Rightarrow> string option \<Rightarrow> py_error + channel_value" where
  "db_current_tool self_table tool_in_spindle item =
     (case item of
        None \<Rightarrow>
          (case self_table tool_in_spindle of
             None \<Rightarrow> Inl KeyError
           | Some t \<Rightarrow> Inr (WholeTool t))
      | Some key \<Rightarrow>
          (case self_table tool_in_spindle of
             None \<Rightarrow> Inl KeyError
           | Some t \<Rightarrow>
               (case key of
                  [] \<Rightarrow> Inl IndexError
                | c # _ \<Rightarrow> Inr (ToolItem (t (upper [c]))))))"

text \<open>The dictionary that \<^verbatim>\<open>saveToolTable\<close> builds for a persisted row, and the keys of
  every such dictionary.\<close>

definition db_fields :: "string list" where
  "db_fields = [''R'', ''T'', ''P'', ''X'', ''Y'', ''Z'', ''A'', ''B'', ''C'', ''U'', ''V'', ''W'',
                ''Q'', ''I'', ''J'', ''D'']"

definition tool_dict :: "db_tool_row \<Rightarrow> tool" where
  "tool_dict tool = map_of
     [(''R'', remark tool), (''T'', PInt (tool_no tool)), (''P'', pocket tool),
      (''X'', x_offset tool), (''Y'', y_offset tool), (''Z'', z_offset tool),
      (''A'', a_offset tool), (''B'', b_offset tool), (''C'', c_offset tool),
      (''U'', u_offset tool), (''V'', v_offset tool), (''W'', w_offset tool),
      (''Q'', PInt 1), (''I'', PFloat 0), (''J'', PFloat 0), (''D'', diameter tool)]"

definition new_tool_dict :: "db_tool_row list \<Rightarrow> tool_table" where
  "new_tool_dict store = foldl (\<lambda>d tool. d(tool_no tool \<mapsto> tool_dict tool)) Map.empty store"

subsection \<open>DeepDiff\<close>

text \<open>\<^verbatim>\<open>DeepDiff(t1, t2, view="tree")\<close> is a library call. Its three reports that the plugin
  reads are modelled for two dictionaries of dictionaries, the records of \<open>t1\<close> having the
  keys \<open>db_fields\<close>:
  \<^item> \<^verbatim>\<open>dictionary_item_added\<close>: the tool numbers of \<open>t2\<close> missing in \<open>t1\<close>, each with
    its record in \<open>t2\<close>, and the fields that a record of \<open>t2\<close> has and its counterpart
    in \<open>t1\<close> lacks;
  \<^item> \<^verbatim>\<open>dictionary_item_removed\<close>: the same with \<open>t1\<close> and \<open>t2\<close> exchanged;
  \<^item> \<^verbatim>\<open>values_changed\<close>: one entry for each field of a common tool number whose two
    values have the same type and differ; the plugin reads the parent of the entry in
    \<open>t2\<close>, the whole record. Values of different types are reported as
    \<^verbatim>\<open>type_changes\<close>, which the plugin does not read.

  The order within a report is taken as: tool numbers ascending, whole records before
  fields. A node for a field is not a dictionary, and the plugin fails with
  \<^verbatim>\<open>TypeError\<close> at the first one it meets, so the field nodes of one record are
  represented by a single \<open>FieldNode\<close>.\<close>

datatype diff_node = RecordNode tool | FieldNode

record tree_diff =
  dictionary_item_added :: "diff_node list"
  values_changed :: "tool list"
  dictionary_item_removed :: "diff_node list"

definition same_type :: "pyval \<Rightarrow> pyval \<Rightarrow> bool" where
  "same_type u v =
     (case (u, v) of
        (PInt _, PInt _) \<Rightarrow> True
      | (PFloat _, PFloat _) \<Rightarrow> True
      | (PStr _, PStr _) \<Rightarrow> True
      | _ \<Rightarrow> False)"

definition changed_fields :: "tool \<Rightarrow> tool \<Rightarrow> string list" where
  "changed_fields r1 r2 =
     filter (\<lambda>f. case (r1 f, r2 f) of
                   (Some u, Some v) \<Rightarrow> same_type u v \<and> u \<noteq> v
                 | _ \<Rightarrow> False) db_fields"

definition only_in :: "tool_table \<Rightarrow> tool_table \<Rightarrow> diff_node list" where
  "only_in ta tb =
     concat (map (\<lambda>k. case ta k of
                        Some r \<Rightarrow> if tb k = None then [RecordNode r] else []
                      | None \<Rightarrow> []) (sorted_keys ta))"

definition extra_fields :: "tool_table \<Rightarrow> tool_table \<Rightarrow> diff_node list" where
  "extra_fields ta tb =
     concat (map (\<lambda>k. case (ta k, tb k) of
                        (Some ra, Some rb) \<Rightarrow> if dom ra \<subseteq> dom rb then [] else [FieldNode]
                      | _ \<Rightarrow> []) (sorted_keys ta))"

definition changed_records :: "tool_table \<Rightarrow> tool_table \<Rightarrow> tool list" where
  "changed_records t1 t2 =
     concat (map (\<lambda>k. case (t1 k, t2 k) of
                        (Some r1, Some r2) \<Rightarrow> map (\<lambda>f. r2) (changed_fields r1 r2)
                      | _ \<Rightarrow> []) (sorted_keys t1))"

definition DeepDiff :: "tool_table \<Rightarrow> tool_table \<Rightarrow> tree_diff" where
  "DeepDiff t1 t2 =
     \<lparr>dictionary_item_added = only_in t2 t1 @ extra_fields t2 t1,
      values_changed = changed_records t1 t2,
      dictionary_item_removed = only_in t1 t2 @ extra_fields t1 t2\<rparr>"

subsection \<open>saveToolTable\<close>

text \<open>\<^verbatim>\<open>temp_tool[key]\<close> for a node of the diff.\<close>

definition node_record :: "diff_node \<Rightarrow> py_error + tool" where
  "node_record a = (case a of RecordNode t \<Rightarrow> Inr t | FieldNode \<Rightarrow> Inl TypeError)"

text \<open>The values that \<^verbatim>\<open>Tool(...)\<close> and the assignments of the update read from
  \<^verbatim>\<open>temp_tool\<close>: a missing key raises \<^verbatim>\<open>KeyError\<close>; a tool number that is not an
  integer is refused when the row is committed.\<close>

definition row_keys :: "string list" where
  "row_keys = [''R'', ''T'', ''P'', ''X'', ''Y'', ''Z'', ''A'', ''B'', ''C'', ''I'', ''J'', ''Q'',
               ''U'', ''V'', ''W'', ''D'']"

definition getitem :: "tool \<Rightarrow> string \<Rightarrow> pyval" where
  "getitem temp_tool key = (case temp_tool key of Some v \<Rightarrow> v | None \<Rightarrow> PStr [])"

definition row_of :: "tool \<Rightarrow> py_error + db_tool_row" where
  "row_of temp_tool =
     (if \<not> list_all (\<lambda>key. temp_tool key \<noteq> None) row_keys then Inl KeyError
      else (case getitem temp_tool ''T'' of
              PInt n \<Rightarrow>
                Inr \<lparr>remark = getitem temp_tool ''R'', tool_no = n, in_use = False,
                     pocket = getitem temp_tool ''P'',
                     x_offset = getitem temp_tool ''X'', y_offset = getitem temp_tool ''Y'',
                     z_offset = getitem temp_tool ''Z'', a_offset = getitem temp_tool ''A'',
                     b_offset = getitem temp_tool ''B'', c_offset = getitem temp_tool ''C'',
                     i_offset = getitem temp_tool ''I'', j_offset = getitem temp_tool ''J'',
                     q_offset = getitem temp_tool ''Q'', u_offset = getitem temp_tool ''U'',
                     v_offset = getitem temp_tool ''V'', w_offset = getitem temp_tool ''W'',
                     diameter = getitem temp_tool ''D'', tool_table_id = 1\<rparr>
            | _ \<Rightarrow> Inl StatementError))"

text \<open>\<^verbatim>\<open>query(Tool).filter(Tool.tool_no == v)\<close> and \<^verbatim>\<open>.one()\<close>.\<close>

definition matches :: "pyval \<Rightarrow> db_tool_row \<Rightarrow> bool" where
  "matches v tool =
     (case v of
        PInt n \<Rightarrow> tool_no tool = n
      | PFloat x \<Rightarrow> of_int (tool_no tool) = x
      | PStr _ \<Rightarrow> False)"

definition one :: "db_tool_row list \<Rightarrow> py_error + db_tool_row" where
  "one rows = (case rows of [] \<Rightarrow> Inl NoResultFound | [r] \<Rightarrow> Inr r | _ \<Rightarrow> Inl MultipleResultsFound)"

text \<open>The local variable \<^verbatim>\<open>tool_data\<close> holds the query over all tools until the update
  loop assigns a row to it. A row has no attribute \<^verbatim>\<open>filter\<close>.\<close>

datatype tool_data_value = QueryObject | RowObject

text \<open>The three loops. Each returns the exception raised, if any, the store and the effects;
  the update loop also returns the value of \<^verbatim>\<open>tool_data\<close>.\<close>

fun apply_inserts ::
  "diff_node list \<Rightarrow> db_tool_row list \<Rightarrow> (py_error + unit) \<times> db_tool_row list \<times> event list" where
  "apply_inserts [] store = (Inr (), store, [])"
| "apply_inserts (a # rest) store =
     (case node_record a of
        Inl e \<Rightarrow> (Inl e, store, [])
      | Inr temp_tool \<Rightarrow>
          (case row_of temp_tool of
             Inl e \<Rightarrow> (Inl e, store, [])
           | Inr tool \<Rightarrow>
               (case apply_inserts rest (store @ [tool]) of
                  (r, store', evs) \<Rightarrow> (r, store', SessionCommit # evs))))"

fun apply_updates ::
  "tool list \<Rightarrow> tool_data_value \<Rightarrow> db_tool_row list
     \<Rightarrow> (py_error + unit) \<times> tool_data_value \<times> db_tool_row list \<times> event list" where
  "apply_updates [] tool_data store = (Inr (), tool_data, store, [])"
| "apply_updates (temp_tool # rest) tool_data store =
     (case temp_tool ''T'' of
        None \<Rightarrow> (Inl KeyError, tool_data, store, [])
      | Some tnum \<Rightarrow>
          (case one (filter (matches tnum) store) of
             Inl e \<Rightarrow> (Inl e, tool_data, store, [])
           | Inr found \<Rightarrow>
               (case row_of temp_tool of
                  Inl e \<Rightarrow> (Inl e, RowObject, store, [])
                | Inr tool \<Rightarrow>
                    (case apply_updates rest RowObject
                            (map (\<lambda>r. if matches tnum r then tool else r) store) of
                       (r, tool_data', store', evs) \<Rightarrow>
                         (r, tool_data', store', SessionCommit # evs)))))"

fun apply_deletes ::
  "diff_node list \<Rightarrow> tool_data_value \<Rightarrow> db_tool_row list
     \<Rightarrow> (py_error + unit) \<times> db_tool_row list \<times> event list" where
  "apply_deletes [] tool_data store = (Inr (), store, [])"
| "apply_deletes (a # rest) tool_data store =
     (case tool_data of
        RowObject \<Rightarrow> (Inl AttributeError, store, [])
      | QueryObject \<Rightarrow>
          (case node_record a of
             Inl e \<Rightarrow> (Inl e, store, [])
           | Inr temp_tool \<Rightarrow>
               (case temp_tool ''T'' of
                  None \<Rightarrow> (Inl KeyError, store, [])
                | Some tnum \<Rightarrow>
                    (case one (filter (matches tnum) store) of
                       Inl e \<Rightarrow> (Inl e, store, [])
                     | Inr tool_row \<Rightarrow>
                         (case apply_deletes rest tool_data
                                 (filter (\<lambda>r. \<not> matches tnum r) store) of
                            (r, store', evs) \<Rightarrow> (r, store', SessionCommit # evs))))))"

text \<open>A report that is absent from the diff is \<^verbatim>\<open>None\<close> and its loop is skipped with
  its \<^verbatim>\<open>print\<close>.\<close>

definition announce :: "string \<Rightarrow> 'a list \<Rightarrow> event list" where
  "announce msg report = (if report = [] then [] else [PrintEvent [msg]])"

text \<open>\<^verbatim>\<open>DBToolTable.saveToolTable\<close>: the exception raised, if any, the new value of
  \<^verbatim>\<open>self.table\<close>, the store and the effects in order.\<close>

definition db_saveToolTable ::
  "tool_table \<Rightarrow> db_tool_row list
     \<Rightarrow> (py_error + unit) \<times> tool_table \<times> db_tool_row list \<times> event list" where
  "db_saveToolTable tool_table store =
     (let diff = DeepDiff (new_tool_dict store) tool_table;
          to_insert = dictionary_item_added diff;
          to_update = values_changed diff;
          to_delete = dictionary_item_removed diff
      in case apply_inserts to_insert store of
           (Inl e, store1, evs1) \<Rightarrow>
             (Inl e, tool_table, store1, announce ''TO INSTERT'' to_insert @ evs1)
         | (Inr u, store1, evs1) \<Rightarrow>
             (case apply_updates to_update QueryObject store1 of
                (Inl e, tool_data, store2, evs2) \<Rightarrow>
                  (Inl e, tool_table, store2,
                   announce ''TO INSTERT'' to_insert @ evs1
                   @ announce ''TO UPDATE'' to_update @ evs2)
              | (Inr u, tool_data, store2, evs2) \<Rightarrow>
                  (case apply_deletes to_delete tool_data store2 of
                     (Inl e, store3, evs3) \<Rightarrow>
                       (Inl e, tool_table, store3,
                        announce ''TO INSTERT'' to_insert @ evs1
                        @ announce ''TO UPDATE'' to_update @ evs2
                        @ announce ''TO DELETE'' to_delete @ evs3)
                   | (Inr u, store3, evs3) \<Rightarrow>
                       (Inr (), tool_table, store3,
                        announce ''TO INSTERT'' to_insert @ evs1
                        @ announce ''TO UPDATE'' to_update @ evs2
                        @ announce ''TO DELETE'' to_delete @ evs3 @ [SessionClose]))))"

section \<open>Example inputs\<close>

text \<open>A plugin that writes the tool number column only, and a table with the sentinel
  and one tool.\<close>

definition example_plugin :: tool_table_plugin where
  "example_plugin =
     \<lparr>TOOL_TABLE = [0 \<mapsto> NO_TOOL], orig_header_lines = [], file_header_template = [],
      columns = [''T'']\<rparr>"

definition example_table :: tool_table where
  "example_table = [0 \<mapsto> NO_TOOL, 1 \<mapsto> NO_TOOL(''T'' \<mapsto> PInt 1, ''R'' \<mapsto> PStr ''drill'')]"

text \<open>A row of the store with tool number \<open>n\<close> and X offset \<open>x\<close>; three persisted rows,
  and a desired table in which tool 1 is gone, tool 2 has a new X offset and tool 4 is
  new.\<close>

definition example_row :: "int \<Rightarrow> rat \<Rightarrow> db_tool_row" where
  "example_row n x =
     \<lparr>remark = PStr ''drill'', tool_no = n, in_use = False, pocket = PInt n,
      x_offset = PFloat x, y_offset = PFloat 0, z_offset = PFloat 0, a_offset = PFloat 0,
      b_offset = PFloat 0, c_offset = PFloat 0, i_offset = PFloat 0, j_offset = PFloat 0,
      q_offset = PInt 1, u_offset = PFloat 0, v_offset = PFloat 0, w_offset = PFloat 0,
      diameter = PFloat 0, tool_table_id = 1\<rparr>"

definition example_store :: "db_tool_row list" where
  "example_store = [example_row 1 0, example_row 2 0, example_row 3 0]"

definition example_desired :: tool_table where
  "example_desired =
     [2 \<mapsto> tool_dict (example_row 2 5), 3 \<mapsto> tool_dict (example_row 3 0),
      4 \<mapsto> tool_dict (example_row 4 0)]"


section \<open>Properties\<close>

subsection \<open>Evaluation of the character and string primitives\<close>

lemmas char_class_defs = upper_def lower_def upper_char_def lower_char_def lower_letters_def
  upper_letters_def strip_def is_space_def

subsection \<open>current_tool\<close>

text \<open>
  Claim C6. \<^verbatim>\<open>current_tool\<close> without an item returns the whole record of the tool in
  the spindle. With an item it returns the field selected by the upper-cased first
  character of the item, so \<^verbatim>\<open>"Z"\<close> and \<^verbatim>\<open>"z_offset"\<close> both yield the Z offset.
  When the number of the tool in the spindle is not a key of the table the lookup raises
  (Python's \<^verbatim>\<open>KeyError\<close> is the unknown-tool error) and no default record is returned.
  Both plugins behave alike.
\<close>

theorem current_tool_lookup:
  "(tbl tool_in_spindle = Some t \<longrightarrow>
      current_tool tbl tool_in_spindle None = Inr (WholeTool t)
    \<and> current_tool tbl tool_in_spindle (Some (c # cs)) = Inr (ToolItem (t [upper_char c]))
    \<and> current_tool tbl tool_in_spindle (Some ''Z'') = Inr (ToolItem (t ''Z''))
    \<and> current_tool tbl tool_in_spindle (Some ''z_offset'') = Inr (ToolItem (t ''Z''))
    \<and> db_current_tool tbl tool_in_spindle None = Inr (WholeTool t)
    \<and> db_current_tool tbl tool_in_spindle (Some (c # cs)) = Inr (ToolItem (t [upper_char c]))
    \<and> db_current_tool tbl tool_in_spindle (Some ''Z'') = Inr (ToolItem (t ''Z''))
    \<and> db_current_tool tbl tool_in_spindle (Some ''z_offset'') = Inr (ToolItem (t ''Z'')))
   \<and> (tbl tool_in_spindle = None \<longrightarrow>
      current_tool tbl tool_in_spindle key = Inl KeyError
    \<and> db_current_tool tbl tool_in_spindle key = Inl KeyError)"
  by (auto simp: current_tool_def db_current_tool_def upper_def upper_char_def
      lower_letters_def upper_letters_def split: option.splits list.splits)

theorem current_tool_lookup_witness:
  "[0 \<mapsto> NO_TOOL] (0::int) = Some NO_TOOL
   \<and> current_tool [0 \<mapsto> NO_TOOL] 0 None = Inr (WholeTool NO_TOOL)
   \<and> current_tool [0 \<mapsto> NO_TOOL] 0 (Some ''z_offset'') = Inr (ToolItem (Some (PFloat 0)))
   \<and> [0 \<mapsto> NO_TOOL] (5::int) = None
   \<and> current_tool [0 \<mapsto> NO_TOOL] 5 (Some ''Z'') = Inl KeyError"
proof -
  have present: "[0 \<mapsto> NO_TOOL] (0::int) = Some NO_TOOL" by simp
  have absent: "[0 \<mapsto> NO_TOOL] (5::int) = None" by simp
  have z: "NO_TOOL ''Z'' = Some (PFloat 0)"
    by (simp add: NO_TOOL_def merge_def DEFAULT_TOOL_def)
  have a: "current_tool [0 \<mapsto> NO_TOOL] 0 None = Inr (WholeTool NO_TOOL)
      \<and> current_tool [0 \<mapsto> NO_TOOL] 0 (Some ''z_offset'') = Inr (ToolItem (NO_TOOL ''Z''))"
    using current_tool_lookup [of "[0 \<mapsto> NO_TOOL]" 0 NO_TOOL] present by blast
  have b: "current_tool [0 \<mapsto> NO_TOOL] 5 (Some ''Z'') = Inl KeyError"
    using current_tool_lookup [of "[0 \<mapsto> NO_TOOL]" 5 _ _ _ "Some ''Z''"] absent by blast
  show ?thesis
    using a b present absent z by simp
qed

subsection \<open>validateColumns\<close>

text \<open>For a list of strings the file plugin returns the stripped and upper-cased elements
  that are column identifiers, in order and with repetitions; an argument that is no
  string, list or tuple gives \<^verbatim>\<open>None\<close>.\<close>

lemma strip_upper_all_strings:
  "strip_upper_all (map OStr xs) = Inr (map (\<lambda>s. upper (strip s)) xs)"
  by (induction xs) simp_all

lemma validateColumns_list_of_strings:
  "validateColumns (OList (map OStr xs))
     = Inr (Some (filter (\<lambda>col. col \<in> set ALL_COLUMNS) (map (\<lambda>s. upper (strip s)) xs)))"
proof -
  have "[] \<notin> set ALL_COLUMNS" by (simp add: ALL_COLUMNS_def)
  then have "(\<lambda>col. col \<in> set ALL_COLUMNS \<and> col \<noteq> []) = (\<lambda>col. col \<in> set ALL_COLUMNS)"
    by auto
  then show ?thesis
    by (simp add: validateColumns_def strip_upper_all_strings)
qed

lemma validateColumns_other_type:
  "validateColumns (OInt n) = Inr None \<and> validateColumns ONone = Inr None
   \<and> db_validateColumns (OInt n) = Inr None \<and> db_validateColumns ONone = Inr None"
  by (simp add: validateColumns_def db_validateColumns_def)

text \<open>
  Claim C10. \<^verbatim>\<open>validateColumns\<close> keeps exactly the elements that are known column
  identifiers. The database plugin tests \<^verbatim>\<open>col in 'TPXYZABCUVWDIJQR'\<close>, which for
  strings is the substring test: for the list \<^verbatim>\<open>['xy', 'T']\<close> it keeps \<^verbatim>\<open>'XY'\<close>, which
  is no column identifier, where the file plugin drops it.
\<close>

theorem db_validateColumns_keeps_substring:
  "db_validateColumns (OList [OStr ''xy'', OStr ''T'']) = Inr (Some [''XY'', ''T''])
   \<and> ''XY'' \<notin> set db_fields \<and> ''XY'' \<notin> set ALL_COLUMNS
   \<and> validateColumns (OList [OStr ''xy'', OStr ''T'']) = Inr (Some [''T''])"
  by (simp add: db_validateColumns_def validateColumns_def is_substring_def char_class_defs
      db_fields_def ALL_COLUMNS_def)

subsection \<open>Decoding a row\<close>

lemmas num_defs = py_int_def py_float_def unsigned_part_def is_sign_def is_negative_def
  is_digit_def digit_chars_def nat_of_digits_def digit_val_def

lemma scenario_partition:
  "partition_str CHR '';'' ''T1 P1 X0.000000 Z-1.500000 ;[toolA.stl][#FF0000]end mill''
     = (''T1 P1 X0.000000 Z-1.500000 '', '';'', ''[toolA.stl][#FF0000]end mill'')"
  by (simp add: partition_str_def)

lemma scenario_items:
  "findall_items (remove_spaces ''T1 P1 X0.000000 Z-1.500000 '')
     = [''T1'', ''P1'', ''X0.000000'', ''Z-1.500000'']"
  by (simp add: remove_spaces_def is_AZ_def is_value_char_def upper_letters_def)

lemma scenario_tool_model:
  "findall_bracketed is_model_char (lower ''[toolA.stl][#FF0000]end mill'') = []"
  by (simp add: is_model_char_def char_class_defs)

lemma scenario_path_color:
  "findall_bracketed is_color_char (upper ''[toolA.stl][#FF0000]end mill'') = [''#FF0000'']"
  by (simp add: is_color_char_def char_class_defs)

lemma scenario_parse:
  "parse_items [''T1'', ''P1'', ''X0.000000'', ''Z-1.500000''] DEFAULT_TOOL
     = (DEFAULT_TOOL(''T'' \<mapsto> PInt 1, ''P'' \<mapsto> PInt 1, ''X'' \<mapsto> PFloat 0,
                     ''Z'' \<mapsto> PFloat (- 3 / 2)), [])"
  by (simp add: ALL_COLUMNS_def num_defs)

lemma scenario_strip:
  "strip ''[toolA.stl][#FF0000]end mill'' = ''[toolA.stl][#FF0000]end mill''"
  by (simp add: strip_def is_space_def)

lemma scenario_decode:
  "decode_line ''T1 P1 X0.000000 Z-1.500000 ;[toolA.stl][#FF0000]end mill''
     = (DEFAULT_TOOL(''T'' \<mapsto> PInt 1, ''P'' \<mapsto> PInt 1, ''X'' \<mapsto> PFloat 0,
                     ''Z'' \<mapsto> PFloat (- 3 / 2),
                     ''R'' \<mapsto> PStr ''[toolA.stl][#FF0000]end mill''),
        [PrintEvent [], PrintEvent [''#FF0000'']])"
  unfolding decode_line_def scenario_partition
  by (simp only: prod.case Let_def scenario_items scenario_parse scenario_tool_model
      scenario_path_color scenario_strip append.simps)

text \<open>
  Claim C4. The row
  \<^verbatim>\<open>T1 P1 X0.000000 Z-1.500000 ;[toolA.stl][#FF0000]end mill\<close> decodes to a record with
  \<open>T = 1\<close>, \<open>P = 1\<close>, \<open>X = 0.0\<close> and \<open>Z = -1.5\<close>. The claim wants the remark to be
  \<^verbatim>\<open>end mill\<close> and the two bracketed tokens to be kept apart from it. The code stores
  the whole comment as the remark, leaves the fields \<^verbatim>\<open>STL\<close> and \<^verbatim>\<open>COLOR\<close> empty,
  finds no tool model (its pattern only admits the characters \<^verbatim>\<open>. * ?\<close> between the
  brackets) and only prints the colour it finds.
\<close>

theorem decode_scenario_row:
  "(case decode_line ''T1 P1 X0.000000 Z-1.500000 ;[toolA.stl][#FF0000]end mill'' of
      (tool, printed) \<Rightarrow>
        tool ''T'' = Some (PInt 1) \<and> tool ''P'' = Some (PInt 1)
        \<and> tool ''X'' = Some (PFloat 0) \<and> tool ''Z'' = Some (PFloat (- 3 / 2))
        \<and> tool ''R'' = Some (PStr ''[toolA.stl][#FF0000]end mill'')
        \<and> tool ''R'' \<noteq> Some (PStr ''end mill'')
        \<and> tool ''STL'' = Some (PStr '''') \<and> tool ''COLOR'' = Some (PStr '''')
        \<and> printed = [PrintEvent [], PrintEvent [''#FF0000'']]
        \<and> load_rows [''T1 P1 X0.000000 Z-1.500000 ;[toolA.stl][#FF0000]end mill''] 1
            = Some tool)"
  unfolding load_rows_def foldl.simps add_row_def scenario_decode
  by (simp add: DEFAULT_TOOL_def)

subsection \<open>Writing the file and reloading\<close>

lemma perform_no_failure:
  "\<forall>opn \<in> set ops. \<not> fails opn \<Longrightarrow> perform fails ops = (Inr (), map Performed ops)"
  by (induction ops) simp_all

lemma perform_result: "fst (perform fails ops) = Inl e \<Longrightarrow> e = IOError"
  by (induction ops) (auto split: prod.splits if_splits)

lemma perform_events: "LoadToolTableCmd \<notin> set (snd (perform fails ops))"
  by (induction ops) (auto split: prod.splits if_splits)

lemma write_file_no_failure:
  assumes "\<not> fails OpOpen" "\<not> fails (OpWrite (join [CHR 0x0A] lines))"
    "\<not> fails (OpWrite [CHR 0x0A])" "\<not> fails OpFlush" "\<not> fails OpFsync" "\<not> fails OpClose"
  shows "write_file fails lines =
           (Inr (), [Performed OpOpen, Performed (OpWrite (join [CHR 0x0A] lines)),
                     Performed (OpWrite [CHR 0x0A]), Performed OpFlush, Performed OpFsync,
                     Performed OpClose])"
  using assms by (simp add: write_file_def)

lemma write_file_failure:
  assumes "fails OpOpen \<or> fails (OpWrite (join [CHR 0x0A] lines))
    \<or> fails (OpWrite [CHR 0x0A]) \<or> fails OpFlush \<or> fails OpFsync \<or> fails OpClose"
  shows "fst (write_file fails lines) = Inl IOError"
  using assms by (auto simp: write_file_def)

lemma write_file_events:
  "write_file fails lines = (r, evs) \<Longrightarrow> LoadToolTableCmd \<notin> set evs"
  using perform_events [of fails "[OpWrite (join [CHR 0x0A] lines), OpWrite [CHR 0x0A], OpFlush, OpFsync]"]
  by (auto simp: write_file_def split: prod.splits sum.splits if_splits)

lemma saveToolTable_command_only_on_success:
  "LoadToolTableCmd \<in> set (snd (snd (saveToolTable float_str fails rendered tool_table columns_arg self)))
   \<Longrightarrow> fst (saveToolTable float_str fails rendered tool_table columns_arg self) = Inr ()"
  by (auto simp: saveToolTable_def Let_def split: sum.splits prod.splits
      dest: write_file_events)

text \<open>
  Claim C9. Once the lines of the file are built, \<^verbatim>\<open>saveToolTable\<close> opens the file,
  writes the text and the final newline, flushes, calls \<^verbatim>\<open>fsync\<close> and closes. If one
  of these operations fails, the call ends with that error and the command
  \<^verbatim>\<open>CMD.load_tool_table()\<close> is not issued. If none fails, the command is issued, after
  all of them.
\<close>

theorem saveToolTable_reload_after_write:
  assumes "validateColumns columns_arg = Inr validated"
    and "file_lines float_str
           (fst (restore_header (orig_header_lines self)
                   (template_header_lines (file_header_template self) rendered)))
           (columns self) (columns_or validated (columns self)) tool_table = Inr lines"
  shows "(if fails OpOpen \<or> fails (OpWrite (join [CHR 0x0A] lines))
             \<or> fails (OpWrite [CHR 0x0A]) \<or> fails OpFlush \<or> fails OpFsync \<or> fails OpClose
          then fst (saveToolTable float_str fails rendered tool_table columns_arg self)
                 = Inl IOError
               \<and> LoadToolTableCmd \<notin> set (snd (snd (saveToolTable float_str fails rendered
                                                      tool_table columns_arg self)))
          else fst (saveToolTable float_str fails rendered tool_table columns_arg self) = Inr ()
               \<and> snd (snd (saveToolTable float_str fails rendered tool_table columns_arg self))
                 = [PrintEvent (columns_or validated (columns self)),
                    Performed OpOpen, Performed (OpWrite (join [CHR 0x0A] lines)),
                    Performed (OpWrite [CHR 0x0A]), Performed OpFlush, Performed OpFsync,
                    Performed OpClose, LoadToolTableCmd])"
proof (cases "fails OpOpen \<or> fails (OpWrite (join [CHR 0x0A] lines))
             \<or> fails (OpWrite [CHR 0x0A]) \<or> fails OpFlush \<or> fails OpFsync \<or> fails OpClose")
  case True
  then have "fst (write_file fails lines) = Inl IOError"
    by (rule write_file_failure)
  then show ?thesis
    using True assms
    by (auto simp: saveToolTable_def Let_def split: prod.splits sum.splits
        dest: write_file_events)
next
  case False
  then have "write_file fails lines =
           (Inr (), [Performed OpOpen, Performed (OpWrite (join [CHR 0x0A] lines)),
                     Performed (OpWrite [CHR 0x0A]), Performed OpFlush, Performed OpFsync,
                     Performed OpClose])"
    by (intro write_file_no_failure) auto
  then show ?thesis
    using False assms by (simp add: saveToolTable_def Let_def)
qed

lemma example_sorted_keys: "sorted_keys example_table = [0, 1]"
  by (simp add: sorted_keys_def example_table_def)

lemma example_title: "title_line [''T''] [''T''] = Inr '';Tool  Remark''"
  by (simp add: title_line_def COLUMN_LABELS_def is_substring_def INT_COLUMN_WIDTH_def ljust_def)

lemma show_int_1: "show_int 1 = ''1''"
  by (simp add: show_int_def show_nat.simps digit_char_def digit_chars_def)

lemma example_tool_line:
  "tool_line float_str [''T''] (NO_TOOL(''T'' \<mapsto> PInt 1, ''R'' \<mapsto> PStr ''drill''))
     = Inr ''T1     ; drill''"
  by (simp add: tool_line_def remark_items_def format_int_column_def is_substring_def
      INT_COLUMN_WIDTH_def ljust_def show_int_1 eval_nat_numeral)

lemma example_file_lines:
  "file_lines float_str [] [''T''] [''T''] example_table
     = Inr ['';Tool  Remark'', ''T1     ; drill'']"
  unfolding file_lines_def example_sorted_keys example_title
  by (simp add: example_table_def example_tool_line)

theorem saveToolTable_reload_after_write_witness:
  "validateColumns ONone = Inr None
   \<and> file_lines (\<lambda>x. []) [] [''T''] [''T''] example_table
       = Inr ['';Tool  Remark'', ''T1     ; drill'']
   \<and> fst (saveToolTable (\<lambda>x. []) (\<lambda>opn. opn = OpFsync) None example_table ONone example_plugin)
       = Inl IOError
   \<and> LoadToolTableCmd \<notin> set (snd (snd (saveToolTable (\<lambda>x. []) (\<lambda>opn. opn = OpFsync) None
                                         example_table ONone example_plugin)))
   \<and> snd (snd (saveToolTable (\<lambda>x. []) (\<lambda>opn. False) None example_table ONone example_plugin))
       = [PrintEvent [''T''], Performed OpOpen,
          Performed (OpWrite '';Tool  Remark\<newline>T1     ; drill''),
          Performed (OpWrite ''\<newline>''), Performed OpFlush, Performed OpFsync,
          Performed OpClose, LoadToolTableCmd]"
proof -
  have v: "validateColumns ONone = Inr None"
    by (simp add: validateColumns_def)
  have l: "file_lines (\<lambda>x. [])
           (fst (restore_header (orig_header_lines example_plugin)
                   (template_header_lines (file_header_template example_plugin) None)))
           (columns example_plugin) (columns_or None (columns example_plugin)) example_table
         = Inr ['';Tool  Remark'', ''T1     ; drill'']"
    by (simp add: example_plugin_def restore_header_def template_header_lines_def
        columns_or_def example_file_lines)
  have l': "file_lines (\<lambda>x. []) [] [''T''] [''T''] example_table
       = Inr ['';Tool  Remark'', ''T1     ; drill'']"
    by (rule example_file_lines)
  show ?thesis
    using saveToolTable_reload_after_write [OF v l, of "\<lambda>opn. opn = OpFsync"]
      saveToolTable_reload_after_write [OF v l, of "\<lambda>opn. False"] v l'
    by (simp add: columns_or_def example_plugin_def)
qed

subsection \<open>The table built by loadToolTable\<close>

lemma add_row_lookup:
  "add_row tbl line k =
     (if fst (decode_line line) ''T'' = Some (PInt k) \<and> k \<noteq> - 1
      then Some (fst (decode_line line)) else tbl k)"
  by (auto simp: add_row_def split: option.splits pyval.splits)

lemma foldl_add_row_other:
  "\<forall>line \<in> set lines. fst (decode_line line) ''T'' \<noteq> Some (PInt k) \<Longrightarrow>
     foldl add_row tbl lines k = tbl k"
  by (induction lines arbitrary: tbl) (simp_all add: add_row_lookup)

lemma foldl_add_row_keeps:
  "tbl k \<noteq> None \<Longrightarrow> foldl add_row tbl lines k \<noteq> None"
  by (induction lines arbitrary: tbl) (simp_all add: add_row_lookup)



lemma NO_TOOL_fields:
  "NO_TOOL ''T'' = Some (PInt 0) \<and> NO_TOOL ''R'' = Some (PStr ''No Tool Loaded'')
   \<and> (k \<noteq> ''T'' \<and> k \<noteq> ''R'' \<longrightarrow> NO_TOOL k = DEFAULT_TOOL k)"
  by (simp add: NO_TOOL_def merge_def)

lemma loadToolTable_state:
  "TOOL_TABLE (fst (snd (loadToolTable d (Some text) sp self)))
     = load_rows (snd (split_header (map strip (readlines text))))"
  by (simp add: loadToolTable_def Let_def split: option.splits)

lemma loadToolTable_result:
  "fst (loadToolTable d (Some text) sp self) =
     (case load_rows (snd (split_header (map strip (readlines text)))) sp of
        None \<Rightarrow> Inl KeyError
      | Some t \<Rightarrow> Inr (load_rows (snd (split_header (map strip (readlines text))))))"
  by (simp add: loadToolTable_def Let_def split: option.splits)

text \<open>
  Claim C2, as amended. For every file text the table that \<^verbatim>\<open>loadToolTable\<close> builds and
  assigns has a record at key 0, and the table is returned whenever the tool in the spindle
  is one of its keys (tool 0 always is). The record at key 0 is the sentinel, with
  \<open>T = 0\<close>, the remark \<^verbatim>\<open>No Tool Loaded\<close> and every other field at its default,
  provided that no row of the file resolves to tool number 0.
\<close>

theorem loadToolTable_sentinel:
  "TOOL_TABLE (fst (snd (loadToolTable d (Some text) sp self))) 0 \<noteq> None
   \<and> (fst (loadToolTable d (Some text) sp self) = Inr table \<longrightarrow>
        table = TOOL_TABLE (fst (snd (loadToolTable d (Some text) sp self))))
   \<and> (sp = 0 \<longrightarrow> fst (loadToolTable d (Some text) sp self)
                    = Inr (TOOL_TABLE (fst (snd (loadToolTable d (Some text) sp self)))))
   \<and> ((\<forall>line \<in> set (snd (split_header (map strip (readlines text)))).
          fst (decode_line line) ''T'' \<noteq> Some (PInt 0)) \<longrightarrow>
        TOOL_TABLE (fst (snd (loadToolTable d (Some text) sp self))) 0 = Some NO_TOOL)
   \<and> NO_TOOL ''T'' = Some (PInt 0) \<and> NO_TOOL ''R'' = Some (PStr ''No Tool Loaded'')
   \<and> (k \<noteq> ''T'' \<and> k \<noteq> ''R'' \<longrightarrow> NO_TOOL k = DEFAULT_TOOL k)"
proof -
  let ?rows = "snd (split_header (map strip (readlines text)))"
  have present: "load_rows ?rows 0 \<noteq> None"
    unfolding load_rows_def by (rule foldl_add_row_keeps) simp
  have sentinel: "load_rows ?rows 0 = Some NO_TOOL"
    if "\<forall>line \<in> set ?rows. fst (decode_line line) ''T'' \<noteq> Some (PInt 0)"
    unfolding load_rows_def using foldl_add_row_other [OF that] by simp
  show ?thesis
    using present sentinel NO_TOOL_fields [of k]
    by (auto simp: loadToolTable_state loadToolTable_result split: option.splits)
qed

lemma zero_row_lines:
  "snd (split_header (map strip (readlines ''T0 P5 ;hello''))) = [''T0 P5 ;hello'']"
  by (simp add: split_header_def startswith_def strip_def is_space_def)

lemma zero_row_decode:
  "fst (decode_line ''T0 P5 ;hello'')
     = DEFAULT_TOOL(''T'' \<mapsto> PInt 0, ''P'' \<mapsto> PInt 5, ''R'' \<mapsto> PStr ''hello'')"
  by (simp add: decode_line_def partition_str_def remove_spaces_def is_AZ_def is_value_char_def
      upper_letters_def ALL_COLUMNS_def num_defs strip_def is_space_def Let_def)

lemma zero_row_table:
  "load_rows [''T0 P5 ;hello''] 0
     = Some (DEFAULT_TOOL(''T'' \<mapsto> PInt 0, ''P'' \<mapsto> PInt 5, ''R'' \<mapsto> PStr ''hello''))"
  by (simp add: load_rows_def add_row_lookup zero_row_decode)

text \<open>
  Claim C2 as stated says that the record at key 0 is the sentinel whatever the file
  holds, also when a row resolves to tool number 0. The file with the single row
  \<^verbatim>\<open>T0 P5 ;hello\<close> gives a record at key 0 with pocket 5 and remark \<^verbatim>\<open>hello\<close>: a
  row numbered 0 is stored like any other and replaces the sentinel.
\<close>

theorem sentinel_overwritten_counterexample:
  "fst (loadToolTable False (Some ''T0 P5 ;hello'') 0 example_plugin)
     = Inr (load_rows [''T0 P5 ;hello''])
   \<and> load_rows [''T0 P5 ;hello''] 0
     = Some (DEFAULT_TOOL(''T'' \<mapsto> PInt 0, ''P'' \<mapsto> PInt 5, ''R'' \<mapsto> PStr ''hello''))
   \<and> load_rows [''T0 P5 ;hello''] 0 \<noteq> Some NO_TOOL"
proof -
  have "(DEFAULT_TOOL(''T'' \<mapsto> PInt 0, ''P'' \<mapsto> PInt 5, ''R'' \<mapsto> PStr ''hello'')) ''R''
          \<noteq> NO_TOOL ''R''"
    by (simp add: NO_TOOL_def merge_def)
  then have "DEFAULT_TOOL(''T'' \<mapsto> PInt 0, ''P'' \<mapsto> PInt 5, ''R'' \<mapsto> PStr ''hello'') \<noteq> NO_TOOL"
    by metis
  then show ?thesis
    unfolding loadToolTable_result zero_row_lines by (simp add: zero_row_table)
qed

lemma one_row_lines:
  "snd (split_header (map strip (readlines ''T1 P1 ;drill''))) = [''T1 P1 ;drill'']"
  by (simp add: split_header_def startswith_def strip_def is_space_def)

lemma one_row_decode:
  "fst (decode_line ''T1 P1 ;drill'')
     = DEFAULT_TOOL(''T'' \<mapsto> PInt 1, ''P'' \<mapsto> PInt 1, ''R'' \<mapsto> PStr ''drill'')"
  by (simp add: decode_line_def partition_str_def remove_spaces_def is_AZ_def is_value_char_def
      upper_letters_def ALL_COLUMNS_def num_defs strip_def is_space_def Let_def)

theorem loadToolTable_sentinel_witness:
  "snd (split_header (map strip (readlines ''T1 P1 ;drill''))) = [''T1 P1 ;drill'']
   \<and> fst (decode_line ''T1 P1 ;drill'') ''T'' = Some (PInt 1)
   \<and> fst (loadToolTable False (Some ''T1 P1 ;drill'') 0 example_plugin)
       = Inr (TOOL_TABLE (fst (snd (loadToolTable False (Some ''T1 P1 ;drill'') 0 example_plugin))))
   \<and> TOOL_TABLE (fst (snd (loadToolTable False (Some ''T1 P1 ;drill'') 0 example_plugin))) 0
       = Some NO_TOOL"
proof -
  have h: "\<forall>line \<in> set (snd (split_header (map strip (readlines ''T1 P1 ;drill'')))).
      fst (decode_line line) ''T'' \<noteq> Some (PInt 0)"
    unfolding one_row_lines by (simp add: one_row_decode)
  have t: "fst (decode_line ''T1 P1 ;drill'') ''T'' = Some (PInt 1)"
    by (simp add: one_row_decode)
  show ?thesis
    using h t one_row_lines loadToolTable_sentinel [of False "''T1 P1 ;drill''" 0 example_plugin]
    by blast
qed

subsection \<open>Coercion failures\<close>

lemma findall_items_nonempty: "i \<in> set (findall_items s) \<Longrightarrow> i \<noteq> []"
  by (induction s rule: findall_items.induct) (auto simp: Let_def split: if_splits)



lemma parse_items_tool_number:
  "\<exists>n. tool ''T'' = Some (PInt n) \<Longrightarrow> \<exists>n. fst (parse_items items tool) ''T'' = Some (PInt n)"
  by (induction items tool rule: parse_items.induct) (auto split: option.splits)

lemma decode_line_tool_number: "\<exists>n. fst (decode_line line) ''T'' = Some (PInt n)"
proof -
  have "\<exists>n. DEFAULT_TOOL ''T'' = Some (PInt n)"
    by (simp add: DEFAULT_TOOL_def)
  then have "\<exists>n. fst (parse_items items DEFAULT_TOOL) ''T'' = Some (PInt n)" for items
    by (rule parse_items_tool_number)
  then show ?thesis
    by (simp add: decode_line_def Let_def split: prod.splits) (metis fst_conv)
qed






subsection \<open>Reconciliation with the store\<close>

lemma tool_dict_dom: "dom (tool_dict r) = set db_fields"
  by (simp add: tool_dict_def db_fields_def dom_map_of_conv_image_fst)

lemma tool_dict_example:
  "tool_dict (example_row n x) = map_of
     [(''R'', PStr ''drill''), (''T'', PInt n), (''P'', PInt n),
      (''X'', PFloat x), (''Y'', PFloat 0), (''Z'', PFloat 0),
      (''A'', PFloat 0), (''B'', PFloat 0), (''C'', PFloat 0),
      (''U'', PFloat 0), (''V'', PFloat 0), (''W'', PFloat 0),
      (''Q'', PInt 1), (''I'', PFloat 0), (''J'', PFloat 0), (''D'', PFloat 0)]"
  by (simp add: tool_dict_def example_row_def)

lemma row_of_tool_dict_example: "row_of (tool_dict (example_row n x)) = Inr (example_row n x)"
  unfolding tool_dict_example
  by (simp add: row_of_def row_keys_def getitem_def example_row_def)

lemma changed_fields_same: "changed_fields r r = []"
  by (simp add: changed_fields_def split: option.splits)

lemma changed_fields_example:
  "x \<noteq> y \<Longrightarrow>
     changed_fields (tool_dict (example_row n x)) (tool_dict (example_row n y)) = [''X'']"
  unfolding tool_dict_example
  by (simp add: changed_fields_def db_fields_def same_type_def)

lemma example_persisted:
  "new_tool_dict example_store
     = [1 \<mapsto> tool_dict (example_row 1 0), 2 \<mapsto> tool_dict (example_row 2 0),
        3 \<mapsto> tool_dict (example_row 3 0)]"
  by (simp add: new_tool_dict_def example_store_def example_row_def)

lemma example_persisted_keys: "sorted_keys (new_tool_dict example_store) = [1, 2, 3]"
  unfolding example_persisted by (simp add: sorted_keys_def)

lemma example_desired_keys: "sorted_keys example_desired = [2, 3, 4]"
  by (simp add: sorted_keys_def example_desired_def)

lemma example_diff:
  "DeepDiff (new_tool_dict example_store) example_desired =
     \<lparr>dictionary_item_added = [RecordNode (tool_dict (example_row 4 0))],
      values_changed = [tool_dict (example_row 2 5)],
      dictionary_item_removed = [RecordNode (tool_dict (example_row 1 0))]\<rparr>"
  unfolding DeepDiff_def only_in_def extra_fields_def changed_records_def
    example_persisted_keys example_desired_keys
  unfolding example_persisted
  by (simp add: example_desired_def tool_dict_dom changed_fields_same changed_fields_example)

lemma tool_dict_example_T: "tool_dict (example_row n x) ''T'' = Some (PInt n)"
  by (simp add: tool_dict_example)

lemma matches_example: "matches (PInt k) (example_row n x) = (n = k)"
  by (simp add: matches_def example_row_def)

lemma example_inserts:
  "apply_inserts [RecordNode (tool_dict (example_row 4 0))] example_store
     = (Inr (), example_store @ [example_row 4 0], [SessionCommit])"
  by (simp add: node_record_def row_of_tool_dict_example)

lemma example_updates:
  "apply_updates [tool_dict (example_row 2 5)] QueryObject (example_store @ [example_row 4 0])
     = (Inr (), RowObject,
        [example_row 1 0, example_row 2 5, example_row 3 0, example_row 4 0], [SessionCommit])"
  by (simp add: tool_dict_example_T example_store_def matches_example one_def
      row_of_tool_dict_example)

lemma example_deletes:
  "apply_deletes [RecordNode (tool_dict (example_row 1 0))] RowObject store
     = (Inl AttributeError, store, [])"
  by simp

text \<open>With \<^verbatim>\<open>tool_data\<close> still the query, the same deletion goes through.\<close>

lemma example_deletes_with_query:
  "apply_deletes [RecordNode (tool_dict (example_row 1 0))] QueryObject
     [example_row 1 0, example_row 2 0, example_row 3 0, example_row 4 0]
     = (Inr (), [example_row 2 0, example_row 3 0, example_row 4 0], [SessionCommit])"
  by (simp add: node_record_def tool_dict_example_T matches_example one_def)

text \<open>
  Claim C7. The store holds the tools 1, 2 and 3, the desired table the tools 2, 3 and 4,
  tool 2 with a new X offset. The diff reports tool 4 as added, tool 2 as changed with its
  whole new record, and tool 1 as removed, as the claim says. \<^verbatim>\<open>saveToolTable\<close> then
  inserts tool 4 and commits, updates tool 2 and commits, and fails on the deletion: the
  update loop has assigned the updated row to the variable \<^verbatim>\<open>tool_data\<close>, on which
  the deletion calls \<^verbatim>\<open>filter\<close>. The call ends with \<^verbatim>\<open>AttributeError\<close>, tool 1
  stays in the store and the session is not closed.
\<close>

theorem db_saveToolTable_scenario:
  "DeepDiff (new_tool_dict example_store) example_desired =
     \<lparr>dictionary_item_added = [RecordNode (tool_dict (example_row 4 0))],
      values_changed = [tool_dict (example_row 2 5)],
      dictionary_item_removed = [RecordNode (tool_dict (example_row 1 0))]\<rparr>
   \<and> db_saveToolTable example_desired example_store =
       (Inl AttributeError, example_desired,
        [example_row 1 0, example_row 2 5, example_row 3 0, example_row 4 0],
        [PrintEvent [''TO INSTERT''], SessionCommit, PrintEvent [''TO UPDATE''], SessionCommit,
         PrintEvent [''TO DELETE'']])"
  unfolding db_saveToolTable_def example_diff Let_def
  by (simp only: tree_diff.simps example_inserts example_updates example_deletes prod.case
      sum.case simp_thms)
    (simp add: announce_def)

subsection \<open>Reloading\<close>

lemma foldl_store_tool_absent:
  "k \<notin> tool_no ` set store \<Longrightarrow> foldl store_tool tbl store k = tbl k"
  by (induction store arbitrary: tbl) (simp_all add: store_tool_def)

lemma db_loadToolTable_keeps_absent:
  "k \<notin> tool_no ` set store \<Longrightarrow> fst (db_loadToolTable store self_table) k = self_table k"
  by (simp add: db_loadToolTable_def Let_def foldl_store_tool_absent)

lemma db_loadToolTable_last_row:
  "fst (db_loadToolTable (store @ [r]) self_table) (tool_no r) = Some (loaded_tool r)"
  by (simp add: db_loadToolTable_def Let_def store_tool_def)

text \<open>
  Claim C8. A reload replaces the table wholesale: the new table holds the records of the
  source and the sentinel, and nothing of the previous table that the source lacks. The
  file plugin builds a fresh table and assigns it (\<open>loadToolTable_state\<close>: the new
  \<^verbatim>\<open>TOOL_TABLE\<close> does not depend on the old one). The database plugin writes each row
  into the dictionary it already holds: with tool 7 in memory and only tool 1 in the
  store, tool 7 is still in the table after \<^verbatim>\<open>loadToolTable\<close>, and there is no
  sentinel at key 0. The file plugin, from the same previous table and a file with
  tool 1 only, ends with tool 7 gone and the sentinel in place.
\<close>

theorem db_loadToolTable_keeps_stale_entries:
  "fst (db_loadToolTable [example_row 1 0] [7 \<mapsto> NO_TOOL]) 7 = Some NO_TOOL
   \<and> fst (db_loadToolTable [example_row 1 0] [7 \<mapsto> NO_TOOL]) 1
       = Some (loaded_tool (example_row 1 0))
   \<and> fst (db_loadToolTable [example_row 1 0] [7 \<mapsto> NO_TOOL]) 0 = None
   \<and> TOOL_TABLE (fst (snd (loadToolTable False (Some ''T1 P1 ;drill'') 0
                             (example_plugin\<lparr>TOOL_TABLE := [0 \<mapsto> NO_TOOL, 7 \<mapsto> NO_TOOL]\<rparr>)))) 7
       = None
   \<and> TOOL_TABLE (fst (snd (loadToolTable False (Some ''T1 P1 ;drill'') 0
                             (example_plugin\<lparr>TOOL_TABLE := [0 \<mapsto> NO_TOOL, 7 \<mapsto> NO_TOOL]\<rparr>)))) 0
       = Some NO_TOOL"
proof -
  have db: "fst (db_loadToolTable [example_row 1 0] [7 \<mapsto> NO_TOOL]) k
              = (if k = 1 then Some (loaded_tool (example_row 1 0)) else [7 \<mapsto> NO_TOOL] k)" for k
    by (simp add: db_loadToolTable_def Let_def store_tool_def example_row_def)
  have rows: "load_rows [''T1 P1 ;drill''] k
              = (if k = 1 then Some (fst (decode_line ''T1 P1 ;drill'')) else [0 \<mapsto> NO_TOOL] k)" for k
    by (simp add: load_rows_def add_row_lookup one_row_decode)
  show ?thesis
    unfolding loadToolTable_state one_row_lines by (simp add: db rows)
qed

subsection \<open>The preserved header\<close>

lemma find_marker_last:
  "\<forall>r \<in> set xs. \<not> startswith r '';'' \<Longrightarrow> startswith m '';'' \<Longrightarrow>
     find_marker n (xs @ m # ys) = Some (n + length xs)"
  by (induction xs arbitrary: n) simp_all

lemma split_header_marker:
  assumes "startswith marker '';''" and "\<forall>r \<in> set rows. \<not> startswith r '';''"
  shows "split_header (before @ marker # rows)
           = (Some (takeWhile header_line_kept (before @ [marker])), rows)"
proof -
  have "find_marker 0 (rev rows @ marker # rev before) = Some (0 + length (rev rows))"
    using assms by (intro find_marker_last) simp_all
  then show ?thesis
    by (simp add: split_header_def)
qed

lemma takeWhile_stops_at_last:
  "\<not> P m \<Longrightarrow> takeWhile P (xs @ [m]) = takeWhile P xs"
  by (induction xs) simp_all

lemma startswith_title_marker: "startswith m '';Tool'' \<Longrightarrow> startswith m '';''"
proof -
  assume "startswith m '';Tool''"
  then obtain rest where "m = '';Tool'' @ rest"
    unfolding startswith_def by (metis append_take_drop_id)
  then show ?thesis by (simp add: startswith_def)
qed

lemma restore_header_prefix:
  "take (length orig) (fst (restore_header orig header_lines)) = orig"
  by (simp add: restore_header_def)

lemma file_lines_header:
  "file_lines float_str header_lines self_columns cols tool_table = Inr out \<Longrightarrow>
     take (length header_lines) out = header_lines"
  by (auto simp: file_lines_def split: sum.splits)

lemma loadToolTable_header:
  "orig_header_lines (fst (snd (loadToolTable d (Some text) sp self)))
     = (case fst (split_header (map strip (readlines text))) of
          None \<Rightarrow> orig_header_lines self
        | Some hdr \<Rightarrow> hdr)"
  by (simp add: loadToolTable_def Let_def split: option.splits)

lemma separator_not_kept: "\<not> header_line_kept ''---''"
  by (simp add: header_line_kept_def strip_def is_space_def)

lemma replicate_numeral: "replicate (numeral k) x = x # replicate (pred_numeral k) x"
  by (simp add: numeral_eq_Suc)

lemma noted_file_lines:
  "map strip (readlines ''my note\<newline>;Tool  Remark\<newline>T1 P1 ;drill'')
     = [''my note''] @ '';Tool  Remark'' # [''T1 P1 ;drill'']"
  by (simp add: strip_def is_space_def)

lemma example_file_lines_with_header:
  "file_lines float_str [''my note''] [''T''] [''T''] example_table
     = Inr [''my note'', '';Tool  Remark'', ''T1     ; drill'']"
  unfolding file_lines_def example_sorted_keys example_title
  by (simp add: example_table_def example_tool_line)

lemma separated_file_lines:
  "map strip (readlines ''  my note\<newline>---\<newline>lost\<newline>;Tool  Remark\<newline>T1 P1 ;drill'')
     = [''my note'', ''---'', ''lost''] @ '';Tool  Remark'' # [''T1 P1 ;drill'']"
  by (simp add: strip_def is_space_def)

text \<open>The title row is itself kept as a header line when it does not start with
  \<^verbatim>\<open>;Tool\<close>, as the one that \<^verbatim>\<open>saveToolTable\<close> writes for the columns \<^verbatim>\<open>PT\<close>.\<close>

lemma title_row_kept_example:
  "title_line [''P'', ''T''] [''P'', ''T''] = Inr '';Pocket Tool   Remark''
   \<and> orig_header_lines
        (fst (snd (loadToolTable False (Some '';Pocket Tool   Remark\<newline>P1     T1     '') 0
                     example_plugin)))
       = ['';Pocket Tool   Remark'']"
proof -
  have lines: "map strip (readlines '';Pocket Tool   Remark\<newline>P1     T1     '')
                 = [] @ '';Pocket Tool   Remark'' # [''P1     T1'']"
    by (simp add: strip_def is_space_def)
  have title: "startswith '';Pocket Tool   Remark'' '';''"
    by (simp add: startswith_def)
  have last_marker: "\<forall>r \<in> set [''P1     T1'']. \<not> startswith r '';''"
    by (simp add: startswith_def)
  have "title_line [''P'', ''T''] [''P'', ''T''] = Inr '';Pocket Tool   Remark''"
    by (simp add: title_line_def COLUMN_LABELS_def is_substring_def INT_COLUMN_WIDTH_def
        ljust_def replicate_numeral)
  then show ?thesis
    unfolding loadToolTable_header lines
    by (simp add: split_header_def header_line_kept_def strip_def is_space_def startswith_def)
qed

subsection \<open>Numbers written and read back\<close>




















subsection \<open>Items written and read back\<close>













lemma remove_spaces_ljust:
  "CHR '' '' \<notin> set s \<Longrightarrow> remove_spaces (ljust w s) = s"
proof -
  assume "CHR '' '' \<notin> set s"
  then have "filter (\<lambda>c. c \<noteq> CHR '' '') s = s"
    by (induction s) auto
  then show ?thesis
    by (simp add: remove_spaces_def ljust_def)
qed



subsection \<open>Stripping and splitting a written line\<close>





















lemma join_lines:
  "ls \<noteq> [] \<Longrightarrow> join [CHR 0x0A] ls @ [CHR 0x0A] = concat (map (\<lambda>l. l @ [CHR 0x0A]) ls)"
proof (induction ls)
  case Nil
  then show ?case by simp
next
  case (Cons l ls)
  then show ?case
    by (cases ls) simp_all
qed








subsection \<open>Saving a table and loading it back\<close>

lemma saveToolTable_written:
  assumes "validateColumns columns_arg = Inr validated"
    and "file_lines float_str
           (fst (restore_header (orig_header_lines self)
                   (template_header_lines (file_header_template self) rendered)))
           (columns self) (columns_or validated (columns self)) tool_table = Inr lines"
    and "\<forall>opn. \<not> fails opn"
  shows "fst (saveToolTable float_str fails rendered tool_table columns_arg self) = Inr ()"
    and "written_text (snd (snd (saveToolTable float_str fails rendered tool_table columns_arg self)))
           = join [CHR 0x0A] lines @ [CHR 0x0A]"
  using assms by (simp_all add: saveToolTable_def Let_def write_file_no_failure)













subsection \<open>Coercion failures during a load\<close>








lemma lost_number_rows:
  "snd (split_header (map strip (readlines ''T5.5 P1 ;x''))) = [''T5.5 P1 ;x'']"
  by (simp add: split_header_def startswith_def strip_def is_space_def)





subsection \<open>The header across a load and a save\<close>

lemma write_file_returned:
  assumes "fst (write_file fails lines) = Inr ()"
  shows "snd (write_file fails lines)
           = [Performed OpOpen, Performed (OpWrite (join [CHR 0x0A] lines)),
              Performed (OpWrite [CHR 0x0A]), Performed OpFlush, Performed OpFsync,
              Performed OpClose]"
  using assms by (simp add: write_file_def split: if_splits)

lemma saveToolTable_returned:
  assumes "fst (saveToolTable float_str fails rendered tool_table columns_arg self) = Inr ()"
  shows "\<exists>validated lines. validateColumns columns_arg = Inr validated
    \<and> file_lines float_str
        (fst (restore_header (orig_header_lines self)
                (template_header_lines (file_header_template self) rendered)))
        (columns self) (columns_or validated (columns self)) tool_table = Inr lines
    \<and> written_text (snd (snd (saveToolTable float_str fails rendered tool_table columns_arg self)))
        = join [CHR 0x0A] lines @ [CHR 0x0A]"
proof -
  obtain validated where validated: "validateColumns columns_arg = Inr validated"
    using assms by (cases "validateColumns columns_arg") (simp_all add: saveToolTable_def)
  define header where "header = fst (restore_header (orig_header_lines self)
                (template_header_lines (file_header_template self) rendered))"
  define cols where "cols = columns_or validated (columns self)"
  obtain lines where lines: "file_lines float_str header (columns self) cols tool_table = Inr lines"
    using assms
    by (cases "file_lines float_str header (columns self) cols tool_table")
      (simp_all add: saveToolTable_def validated Let_def header_def cols_def)
  have written: "fst (write_file fails lines) = Inr ()"
    using assms
    by (cases "write_file fails lines")
      (auto simp: saveToolTable_def validated Let_def lines [unfolded header_def cols_def]
        split: sum.splits)
  then have "write_file fails lines
      = (Inr (), [Performed OpOpen, Performed (OpWrite (join [CHR 0x0A] lines)),
              Performed (OpWrite [CHR 0x0A]), Performed OpFlush, Performed OpFsync,
              Performed OpClose])"
    using write_file_returned [OF written] by (simp add: prod_eq_iff)
  then have "written_text (snd (snd (saveToolTable float_str fails rendered tool_table
                                       columns_arg self)))
        = join [CHR 0x0A] lines @ [CHR 0x0A]"
    by (simp add: saveToolTable_def validated Let_def lines [unfolded header_def cols_def])
  with validated lines show ?thesis
    unfolding header_def cols_def by blast
qed

lemma restore_header_begins:
  "\<exists>more. fst (restore_header orig header_lines) = orig @ more"
  by (simp add: restore_header_def)

lemma file_lines_begin:
  assumes "file_lines float_str header_lines self_columns cols tool_table = Inr lines"
  shows "\<exists>more. lines = header_lines @ more \<and> more \<noteq> []"
  using assms by (auto simp: file_lines_def split: sum.splits)

lemma takeWhile_with_last:
  "\<exists>more. takeWhile P (xs @ [m]) = takeWhile P xs @ more \<and> set more \<subseteq> {m}"
proof (cases "\<forall>x \<in> set xs. P x")
  case True
  then have whole: "takeWhile P xs = xs"
    by simp
  from True have "takeWhile P (xs @ [m]) = xs @ takeWhile P [m]"
    by simp
  then have "takeWhile P (xs @ [m]) = takeWhile P xs @ takeWhile P [m]"
    by (simp only: whole)
  moreover have "set (takeWhile P [m]) \<subseteq> {m}"
    by auto
  ultimately show ?thesis
    by blast
next
  case False
  then obtain x where "x \<in> set xs" "\<not> P x"
    by blast
  then have "takeWhile P (xs @ [m]) = takeWhile P xs"
    by (rule takeWhile_append1)
  then show ?thesis
    by simp
qed

lemma loadToolTable_keeps_settings:
  "columns (fst (snd (loadToolTable d file sp self))) = columns self"
  "file_header_template (fst (snd (loadToolTable d file sp self))) = file_header_template self"
  by (simp_all add: loadToolTable_def Let_def split: option.splits)

text \<open>
  Claim C3, as amended. Let the stripped lines of the file be the lines \<open>before\<close>, the
  \<open>marker\<close>, which starts with a semicolon, and the \<open>rows\<close>, none of which starts with a
  semicolon. After \<^verbatim>\<open>loadToolTable\<close> the preserved header lines are the lines of
  \<open>before\<close> up to the first one that is \<^verbatim>\<open>---\<close> or starts with \<^verbatim>\<open>;Tool\<close>
  (\<open>header_line_kept\<close> is false), unchanged and in order, followed by nothing or by the
  marker itself. No line \<^verbatim>\<open>---\<close> is among them. When \<^verbatim>\<open>saveToolTable\<close> is then called
  on the plugin and returns, the text it wrote begins with these lines, each ended by a
  newline. When the marker starts with \<^verbatim>\<open>;Tool\<close>, it is not among the preserved lines.
\<close>

theorem header_preserved_up_to_separator:
  fixes d :: bool and content :: string and sp :: int and self loaded :: tool_table_plugin
    and float_str :: "rat \<Rightarrow> string" and fails :: "io_op \<Rightarrow> bool"
    and rendered :: "string option" and tool_table :: tool_table and columns_arg :: pyobj
    and saved :: string
  defines "loaded \<equiv> fst (snd (loadToolTable d (Some content) sp self))"
  defines "saved \<equiv> written_text (snd (snd
              (saveToolTable float_str fails rendered tool_table columns_arg loaded)))"
  assumes lines: "map strip (readlines content) = before @ marker # rows"
    and marker: "startswith marker '';''"
    and last_marker: "\<forall>r \<in> set rows. \<not> startswith r '';''"
    and returned: "fst (saveToolTable float_str fails rendered tool_table columns_arg loaded)
                     = Inr ()"
  shows "orig_header_lines loaded = takeWhile header_line_kept (before @ [marker])
    \<and> (\<exists>more. orig_header_lines loaded = takeWhile header_line_kept before @ more
               \<and> set more \<subseteq> {marker})
    \<and> ''---'' \<notin> set (orig_header_lines loaded)
    \<and> (\<exists>rest. saved = concat (map (\<lambda>l. l @ [CHR 0x0A]) (orig_header_lines loaded)) @ rest)
    \<and> (startswith marker '';Tool''
         \<longrightarrow> orig_header_lines loaded = takeWhile header_line_kept before
             \<and> marker \<notin> set (orig_header_lines loaded))"
proof -
  have "split_header (before @ marker # rows)
          = (Some (takeWhile header_line_kept (before @ [marker])), rows)"
    using marker last_marker by (rule split_header_marker)
  then have orig: "orig_header_lines loaded = takeWhile header_line_kept (before @ [marker])"
    unfolding loaded_def by (simp add: loadToolTable_header lines)
  have kept: "header_line_kept l" if "l \<in> set (orig_header_lines loaded)" for l
    using that unfolding orig by (rule set_takeWhileD [THEN conjunct2])
  have begins: "\<exists>more. orig_header_lines loaded = takeWhile header_line_kept before @ more
               \<and> set more \<subseteq> {marker}"
    unfolding orig by (rule takeWhile_with_last)
  have no_separator: "''---'' \<notin> set (orig_header_lines loaded)"
    using kept separator_not_kept by blast
  obtain validated out
    where out: "file_lines float_str
        (fst (restore_header (orig_header_lines loaded)
                (template_header_lines (file_header_template loaded) rendered)))
        (columns loaded) (columns_or validated (columns loaded)) tool_table = Inr out"
      and written: "saved = join [CHR 0x0A] out @ [CHR 0x0A]"
    unfolding saved_def using saveToolTable_returned [OF returned] by blast
  obtain more where "fst (restore_header (orig_header_lines loaded)
                (template_header_lines (file_header_template loaded) rendered))
        = orig_header_lines loaded @ more"
    using restore_header_begins by blast
  moreover obtain more' where "out = fst (restore_header (orig_header_lines loaded)
                (template_header_lines (file_header_template loaded) rendered)) @ more'"
    and "more' \<noteq> []"
    using file_lines_begin [OF out] by blast
  ultimately have shape: "out = orig_header_lines loaded @ (more @ more')" "out \<noteq> []"
    by simp_all
  have "saved = concat (map (\<lambda>l. l @ [CHR 0x0A]) out)"
    unfolding written using shape(2) by (rule join_lines)
  also have "\<dots> = concat (map (\<lambda>l. l @ [CHR 0x0A]) (orig_header_lines loaded))
                   @ concat (map (\<lambda>l. l @ [CHR 0x0A]) (more @ more'))"
    by (subst shape(1)) simp
  finally have written_head: "\<exists>rest. saved
      = concat (map (\<lambda>l. l @ [CHR 0x0A]) (orig_header_lines loaded)) @ rest"
    by blast
  have titled: "startswith marker '';Tool''
         \<longrightarrow> orig_header_lines loaded = takeWhile header_line_kept before
             \<and> marker \<notin> set (orig_header_lines loaded)"
  proof
    assume "startswith marker '';Tool''"
    then have not_kept: "\<not> header_line_kept marker"
      by (simp add: header_line_kept_def)
    then have "orig_header_lines loaded = takeWhile header_line_kept before"
      unfolding orig by (rule takeWhile_stops_at_last)
    moreover have "marker \<notin> set (orig_header_lines loaded)"
      using kept not_kept by blast
    ultimately show "orig_header_lines loaded = takeWhile header_line_kept before
             \<and> marker \<notin> set (orig_header_lines loaded)"
      by blast
  qed
  show ?thesis
    by (intro conjI orig begins no_separator written_head titled)
qed

lemma noted_file_header:
  "orig_header_lines (fst (snd (loadToolTable False
       (Some ''my note\<newline>;Tool  Remark\<newline>T1 P1 ;drill'') 0 example_plugin)))
     = [''my note'']"
  unfolding loadToolTable_header noted_file_lines
  by (simp add: split_header_def header_line_kept_def strip_def is_space_def startswith_def)

lemma noted_file_saved:
  "file_lines (\<lambda>x. [])
     (fst (restore_header
        (orig_header_lines (fst (snd (loadToolTable False
           (Some ''my note\<newline>;Tool  Remark\<newline>T1 P1 ;drill'') 0 example_plugin))))
        (template_header_lines
           (file_header_template (fst (snd (loadToolTable False
              (Some ''my note\<newline>;Tool  Remark\<newline>T1 P1 ;drill'') 0 example_plugin))))
           None)))
     (columns (fst (snd (loadToolTable False
        (Some ''my note\<newline>;Tool  Remark\<newline>T1 P1 ;drill'') 0 example_plugin))))
     (columns_or None
        (columns (fst (snd (loadToolTable False
           (Some ''my note\<newline>;Tool  Remark\<newline>T1 P1 ;drill'') 0 example_plugin)))))
     example_table
   = Inr [''my note'', '';Tool  Remark'', ''T1     ; drill'']"
  unfolding noted_file_header loadToolTable_keeps_settings
  by (simp add: example_plugin_def restore_header_def template_header_lines_def columns_or_def
      example_file_lines_with_header)

theorem header_preserved_up_to_separator_witness:
  "map strip (readlines ''my note\<newline>;Tool  Remark\<newline>T1 P1 ;drill'')
     = [''my note''] @ '';Tool  Remark'' # [''T1 P1 ;drill'']
   \<and> startswith '';Tool  Remark'' '';''
   \<and> startswith '';Tool  Remark'' '';Tool''
   \<and> \<not> startswith ''T1 P1 ;drill'' '';''
   \<and> fst (saveToolTable (\<lambda>x. []) (\<lambda>opn. False) None example_table ONone
            (fst (snd (loadToolTable False
               (Some ''my note\<newline>;Tool  Remark\<newline>T1 P1 ;drill'') 0 example_plugin))))
       = Inr ()
   \<and> orig_header_lines
        (fst (snd (loadToolTable False
                     (Some ''my note\<newline>;Tool  Remark\<newline>T1 P1 ;drill'') 0 example_plugin)))
       = [''my note'']
   \<and> written_text (snd (snd (saveToolTable (\<lambda>x. []) (\<lambda>opn. False) None example_table ONone
            (fst (snd (loadToolTable False
               (Some ''my note\<newline>;Tool  Remark\<newline>T1 P1 ;drill'') 0 example_plugin))))))
       = ''my note\<newline>;Tool  Remark\<newline>T1     ; drill\<newline>''
   \<and> '';Tool  Remark''
       \<notin> set (orig_header_lines
                (fst (snd (loadToolTable False
                             (Some ''my note\<newline>;Tool  Remark\<newline>T1 P1 ;drill'') 0
                             example_plugin))))
   \<and> ''---''
       \<notin> set (orig_header_lines
                (fst (snd (loadToolTable False
                             (Some ''my note\<newline>;Tool  Remark\<newline>T1 P1 ;drill'') 0
                             example_plugin))))"
proof -
  let ?content = "''my note\<newline>;Tool  Remark\<newline>T1 P1 ;drill''"
  let ?loaded = "fst (snd (loadToolTable False (Some ?content) 0 example_plugin))"
  have marker: "startswith '';Tool  Remark'' '';''"
    by (simp add: startswith_def)
  have title: "startswith '';Tool  Remark'' '';Tool''"
    by (simp add: startswith_def)
  have row: "\<not> startswith ''T1 P1 ;drill'' '';''"
    by (simp add: startswith_def)
  then have last_marker: "\<forall>r \<in> set [''T1 P1 ;drill'']. \<not> startswith r '';''"
    by simp
  have selection: "validateColumns ONone = Inr None"
    by (simp add: validateColumns_def)
  have no_failure: "\<forall>opn. \<not> (\<lambda>opn. False) opn"
    by simp
  have returned: "fst (saveToolTable (\<lambda>x. []) (\<lambda>opn. False) None example_table ONone ?loaded)
                    = Inr ()"
    using selection noted_file_saved no_failure by (rule saveToolTable_written)
  have "written_text (snd (snd (saveToolTable (\<lambda>x. []) (\<lambda>opn. False) None example_table ONone
                                  ?loaded)))
       = join [CHR 0x0A] [''my note'', '';Tool  Remark'', ''T1     ; drill''] @ [CHR 0x0A]"
    using selection noted_file_saved no_failure by (rule saveToolTable_written)
  then have written: "written_text (snd (snd (saveToolTable (\<lambda>x. []) (\<lambda>opn. False) None
                                  example_table ONone ?loaded)))
       = ''my note\<newline>;Tool  Remark\<newline>T1     ; drill\<newline>''"
    by simp
  note inst = header_preserved_up_to_separator [OF noted_file_lines marker last_marker returned]
  have no_separator: "''---'' \<notin> set (orig_header_lines ?loaded)"
    by (rule inst [THEN conjunct2, THEN conjunct2, THEN conjunct1])
  have no_marker: "'';Tool  Remark'' \<notin> set (orig_header_lines ?loaded)"
    using inst [THEN conjunct2, THEN conjunct2, THEN conjunct2, THEN conjunct2] title
    by blast
  show ?thesis
    by (intro conjI noted_file_lines marker title row returned noted_file_header written
        no_marker no_separator)
qed

lemma separated_file_header:
  "orig_header_lines (fst (snd (loadToolTable False
       (Some ''  my note\<newline>---\<newline>lost\<newline>;Tool  Remark\<newline>T1 P1 ;drill'') 0 example_plugin)))
     = [''my note'']"
  unfolding loadToolTable_header separated_file_lines
  by (simp add: split_header_def header_line_kept_def strip_def is_space_def startswith_def)

lemma separated_file_saved:
  "file_lines (\<lambda>x. [])
     (fst (restore_header
        (orig_header_lines (fst (snd (loadToolTable False
           (Some ''  my note\<newline>---\<newline>lost\<newline>;Tool  Remark\<newline>T1 P1 ;drill'') 0
           example_plugin))))
        (template_header_lines
           (file_header_template (fst (snd (loadToolTable False
              (Some ''  my note\<newline>---\<newline>lost\<newline>;Tool  Remark\<newline>T1 P1 ;drill'') 0
              example_plugin))))
           None)))
     (columns (fst (snd (loadToolTable False
        (Some ''  my note\<newline>---\<newline>lost\<newline>;Tool  Remark\<newline>T1 P1 ;drill'') 0
        example_plugin))))
     (columns_or None
        (columns (fst (snd (loadToolTable False
           (Some ''  my note\<newline>---\<newline>lost\<newline>;Tool  Remark\<newline>T1 P1 ;drill'') 0
           example_plugin)))))
     example_table
   = Inr [''my note'', '';Tool  Remark'', ''T1     ; drill'']"
  unfolding separated_file_header loadToolTable_keeps_settings
  by (simp add: example_plugin_def restore_header_def template_header_lines_def columns_or_def
      example_file_lines_with_header)

text \<open>
  Claim C3 as stated says that every header line before the marker is preserved verbatim.
  In the file below the header line \<^verbatim>\<open>lost\<close> follows a line \<^verbatim>\<open>---\<close> and is not
  preserved, and the first line loses its indentation: lines are stripped when they are
  read, and the preserved header ends at the separator. The text that \<^verbatim>\<open>saveToolTable\<close>
  writes after the load holds neither.
\<close>

theorem header_lines_lost_counterexample:
  "readlines ''  my note\<newline>---\<newline>lost\<newline>;Tool  Remark\<newline>T1 P1 ;drill''
     = [''  my note\<newline>'', ''---\<newline>'', ''lost\<newline>'', '';Tool  Remark\<newline>'', ''T1 P1 ;drill'']
   \<and> orig_header_lines
        (fst (snd (loadToolTable False
            (Some ''  my note\<newline>---\<newline>lost\<newline>;Tool  Remark\<newline>T1 P1 ;drill'') 0 example_plugin)))
       = [''my note'']
   \<and> fst (saveToolTable (\<lambda>x. []) (\<lambda>opn. False) None example_table ONone
            (fst (snd (loadToolTable False
               (Some ''  my note\<newline>---\<newline>lost\<newline>;Tool  Remark\<newline>T1 P1 ;drill'') 0
               example_plugin))))
       = Inr ()
   \<and> written_text (snd (snd (saveToolTable (\<lambda>x. []) (\<lambda>opn. False) None example_table ONone
            (fst (snd (loadToolTable False
               (Some ''  my note\<newline>---\<newline>lost\<newline>;Tool  Remark\<newline>T1 P1 ;drill'') 0
               example_plugin))))))
       = ''my note\<newline>;Tool  Remark\<newline>T1     ; drill\<newline>''"
proof -
  let ?content = "''  my note\<newline>---\<newline>lost\<newline>;Tool  Remark\<newline>T1 P1 ;drill''"
  let ?loaded = "fst (snd (loadToolTable False (Some ?content) 0 example_plugin))"
  have raw: "readlines ?content
     = [''  my note\<newline>'', ''---\<newline>'', ''lost\<newline>'', '';Tool  Remark\<newline>'', ''T1 P1 ;drill'']"
    by simp
  have selection: "validateColumns ONone = Inr None"
    by (simp add: validateColumns_def)
  have no_failure: "\<forall>opn. \<not> (\<lambda>opn. False) opn"
    by simp
  have returned: "fst (saveToolTable (\<lambda>x. []) (\<lambda>opn. False) None example_table ONone ?loaded)
                    = Inr ()"
    using selection separated_file_saved no_failure by (rule saveToolTable_written)
  have "written_text (snd (snd (saveToolTable (\<lambda>x. []) (\<lambda>opn. False) None example_table ONone
                                  ?loaded)))
       = join [CHR 0x0A] [''my note'', '';Tool  Remark'', ''T1     ; drill''] @ [CHR 0x0A]"
    using selection separated_file_saved no_failure by (rule saveToolTable_written)
  then have written: "written_text (snd (snd (saveToolTable (\<lambda>x. []) (\<lambda>opn. False) None
                                  example_table ONone ?loaded)))
       = ''my note\<newline>;Tool  Remark\<newline>T1     ; drill\<newline>''"
    by simp
  show ?thesis
    by (intro conjI raw separated_file_header returned written)
qed

end
